theory Spec2Isabelle
  imports Complex_Main
begin

section \<open>JavaScript values\<close>

text \<open>
  The angles handed to the state machines are JavaScript values: a property of the
  \<open>angles\<close> object is either not set (\<open>undefined\<close>), \<open>null\<close> (what
  \<open>calculateAngle\<close> returns on a missing point) or a number. A number is modelled as a
  real, with \<open>NaN\<close> kept apart because it is the second falsy number; the infinities and
  the rounding of doubles are not modelled (the machines only compare angles with integer
  constants, and the one sum they form is halved).
\<close>

datatype jsval = Undefined | Null | NaN | Number real

text \<open>\<open>!v\<close> is \<open>\<not> truthy v\<close>: \<open>undefined\<close>, \<open>null\<close>, \<open>NaN\<close> and \<open>0\<close> are falsy.\<close>

fun truthy :: "jsval \<Rightarrow> bool" where
  "truthy (Number r) = (r \<noteq> 0)"
| "truthy Undefined = False"
| "truthy Null = False"
| "truthy NaN = False"

text \<open>The conversion of an operand to a number; \<open>None\<close> stands for \<open>NaN\<close>.\<close>

fun ToNumber :: "jsval \<Rightarrow> real option" where
  "ToNumber Undefined = None"
| "ToNumber Null = Some 0"
| "ToNumber NaN = None"
| "ToNumber (Number r) = Some r"

definition js_less :: "jsval \<Rightarrow> jsval \<Rightarrow> bool" where
  "js_less a b = (case (ToNumber a, ToNumber b) of (Some x, Some y) \<Rightarrow> x < y | _ \<Rightarrow> False)"

definition js_greater :: "jsval \<Rightarrow> jsval \<Rightarrow> bool" where
  "js_greater a b = (case (ToNumber a, ToNumber b) of (Some x, Some y) \<Rightarrow> x > y | _ \<Rightarrow> False)"

definition js_add :: "jsval \<Rightarrow> jsval \<Rightarrow> jsval" where
  "js_add a b = (case (ToNumber a, ToNumber b) of (Some x, Some y) \<Rightarrow> Number (x + y) | _ \<Rightarrow> NaN)"

definition js_sub :: "jsval \<Rightarrow> jsval \<Rightarrow> jsval" where
  "js_sub a b = (case (ToNumber a, ToNumber b) of (Some x, Some y) \<Rightarrow> Number (x - y) | _ \<Rightarrow> NaN)"

text \<open>\<open>v / 2\<close>\<close>

definition js_half :: "jsval \<Rightarrow> jsval" where
  "js_half a = (case ToNumber a of Some x \<Rightarrow> Number (x / 2) | None \<Rightarrow> NaN)"

text \<open>\<open>Math.abs(v)\<close>\<close>

definition Math_abs :: "jsval \<Rightarrow> jsval" where
  "Math_abs a = (case ToNumber a of Some x \<Rightarrow> Number \<bar>x\<bar> | None \<Rightarrow> NaN)"

text \<open>\<open>a || b\<close>\<close>

definition js_or :: "jsval \<Rightarrow> jsval \<Rightarrow> jsval" where
  "js_or a b = (if truthy a then a else b)"

section \<open>Inputs of the state machines\<close>

text \<open>
  The \<open>angles\<close> object of one frame. \<open>updateExerciseState\<close> starts from \<open>{}\<close> and sets
  only the properties of the active exercise, so every other property reads \<open>undefined\<close>.
\<close>

record angles =
  knee :: jsval
  hip :: jsval
  torsoLean :: jsval
  backAngle :: jsval
  elbow :: jsval
  leftElbow :: jsval
  rightElbow :: jsval
  shoulder :: jsval

definition no_angles :: angles where
  "no_angles = \<lparr>knee = Undefined, hip = Undefined, torsoLean = Undefined, backAngle = Undefined,
     elbow = Undefined, leftElbow = Undefined, rightElbow = Undefined, shoulder = Undefined\<rparr>"

record point =
  px :: real
  py :: real

text \<open>
  The second argument of \<open>update\<close>: the squat distances, or the shoulder press positions
  (points, \<open>None\<close> for \<open>null\<close>). A property that is not set reads \<open>undefined\<close>.
\<close>

record distances =
  kneeToe :: jsval
  legLength :: jsval
  leftWrist :: "point option"
  rightWrist :: "point option"
  leftShoulder :: "point option"
  rightShoulder :: "point option"

definition no_distances :: distances where
  "no_distances = \<lparr>kneeToe = Undefined, legLength = Undefined, leftWrist = None,
     rightWrist = None, leftShoulder = None, rightShoulder = None\<rparr>"

text \<open>An entry of \<open>feedbackMessages\<close>: \<open>{type: ..., text: ...}\<close>.\<close>

record feedback =
  msg_type :: string
  msg_text :: string

section \<open>The state machines\<close>

text \<open>
  Every class has the fields \<open>state\<close>, \<open>repCount\<close>, \<open>feedbackMessages\<close> and
  \<open>thresholds\<close>; the squat and the shoulder press machines add \<open>lastRepTime\<close>, the
  squat machine \<open>minDepthReached\<close>. \<open>repCount\<close> only ever is 0 or incremented, so it
  is a natural number. \<open>Date.now()\<close> is the argument \<open>now\<close> of the two updates that
  read the clock.
\<close>

record 'th sm =
  state :: string
  repCount :: nat
  feedbackMessages :: "feedback list"
  thresholds :: 'th

record 'th timed_sm = "'th sm" +
  lastRepTime :: nat

subsection \<open>Squat\<close>

text \<open>
  \<open>update\<close> takes \<open>hip\<close>, \<open>torsoLean\<close>, \<open>kneeToe\<close> and \<open>legLength\<close> out of its
  arguments but reads only \<open>knee\<close>. The method \<open>checkSquatForm\<close> is called from
  nowhere and is left out.
\<close>

record squat_thresholds =
  descendKneeAngle :: real
  descendHipAngle :: real
  bottomKneeAngle :: real
  bottomHipAngle :: real
  ascendKneeAngle :: real
  depthKneeAngle :: real
  kneeToeRatio :: real
  torsoLeanAngle :: real

record squat_sm = "squat_thresholds timed_sm" +
  minDepthReached :: bool

definition SquatStateMachine :: squat_sm where
  "SquatStateMachine =
     \<lparr>state = ''standing'', repCount = 0, feedbackMessages = [],
      thresholds = \<lparr>descendKneeAngle = 150, descendHipAngle = 150, bottomKneeAngle = 110,
        bottomHipAngle = 120, ascendKneeAngle = 150, depthKneeAngle = 130,
        kneeToeRatio = 0.20, torsoLeanAngle = 50\<rparr>,
      lastRepTime = 0, minDepthReached = False\<rparr>"

definition SquatStateMachine_update ::
    "nat \<Rightarrow> squat_sm \<Rightarrow> angles \<Rightarrow> distances option \<Rightarrow> squat_sm" where
  "SquatStateMachine_update now m0 angles dists =
     (let m = m0\<lparr>feedbackMessages := []\<rparr> in
      if \<not> truthy (knee angles) then
        m\<lparr>feedbackMessages := feedbackMessages m @
             [\<lparr>msg_type = ''warning'', msg_text = ''Cannot detect legs''\<rparr>]\<rparr>
      else if state m = ''standing'' then
        (if js_less (knee angles) (Number (descendKneeAngle (thresholds m)))
         then m\<lparr>state := ''descending'', minDepthReached := False\<rparr>
         else m)
      else if state m = ''descending'' then
        (let m1 = (if js_less (knee angles) (Number (depthKneeAngle (thresholds m)))
                   then m\<lparr>minDepthReached := True\<rparr> else m)
         in if js_less (knee angles) (Number (bottomKneeAngle (thresholds m1)))
            then m1\<lparr>state := ''bottom''\<rparr>
            else m1)
      else if state m = ''bottom'' then
        (if js_greater (knee angles) (Number (bottomKneeAngle (thresholds m) + 15))
         then m\<lparr>state := ''ascending''\<rparr>
         else m)
      else if state m = ''ascending'' then
        (if js_greater (knee angles) (Number (ascendKneeAngle (thresholds m)))
         then
           (let m1 = (if minDepthReached m
                      then m\<lparr>repCount := repCount m + 1,
                             feedbackMessages := feedbackMessages m @
                               [\<lparr>msg_type = ''success'', msg_text = ''Good rep!''\<rparr>],
                             lastRepTime := now\<rparr>
                      else m\<lparr>feedbackMessages := feedbackMessages m @
                               [\<lparr>msg_type = ''error'', msg_text = ''Too shallow''\<rparr>]\<rparr>)
            in m1\<lparr>state := ''standing'', minDepthReached := False\<rparr>)
         else m)
      else m)"

definition SquatStateMachine_reset :: "squat_sm \<Rightarrow> squat_sm" where
  "SquatStateMachine_reset m = m\<lparr>repCount := 0, state := ''standing'', minDepthReached := False\<rparr>"

subsection \<open>Bench press\<close>

record bench_thresholds =
  extendedAngle :: real
  descendingAngle :: real
  bottomAngle :: real
  ascendingAngle :: real

definition BenchPressStateMachine :: "bench_thresholds sm" where
  "BenchPressStateMachine =
     \<lparr>state = ''extended'', repCount = 0, feedbackMessages = [],
      thresholds = \<lparr>extendedAngle = 160, descendingAngle = 120, bottomAngle = 90, ascendingAngle = 120\<rparr>\<rparr>"

definition BenchPressStateMachine_update ::
    "bench_thresholds sm \<Rightarrow> angles \<Rightarrow> distances option \<Rightarrow> bench_thresholds sm" where
  "BenchPressStateMachine_update m0 angles dists =
     (let m = m0\<lparr>feedbackMessages := []\<rparr> in
      if \<not> truthy (elbow angles) then
        m\<lparr>feedbackMessages := feedbackMessages m @
             [\<lparr>msg_type = ''warning'', msg_text = ''Cannot detect pose''\<rparr>]\<rparr>
      else if state m = ''extended'' then
        (if js_less (elbow angles) (Number (descendingAngle (thresholds m)))
         then m\<lparr>state := ''descending''\<rparr> else m)
      else if state m = ''descending'' then
        (if js_less (elbow angles) (Number (bottomAngle (thresholds m)))
         then m\<lparr>state := ''bottom''\<rparr> else m)
      else if state m = ''bottom'' then
        (if js_greater (elbow angles) (Number (bottomAngle (thresholds m) + 10))
         then m\<lparr>state := ''ascending''\<rparr> else m)
      else if state m = ''ascending'' then
        (if js_greater (elbow angles) (Number (extendedAngle (thresholds m)))
         then m\<lparr>repCount := repCount m + 1,
                feedbackMessages := feedbackMessages m @
                  [\<lparr>msg_type = ''success'', msg_text = ''Good rep!''\<rparr>],
                state := ''extended''\<rparr>
         else m)
      else m)"

definition BenchPressStateMachine_reset :: "bench_thresholds sm \<Rightarrow> bench_thresholds sm" where
  "BenchPressStateMachine_reset m = m\<lparr>repCount := 0, state := ''extended''\<rparr>"

subsection \<open>Deadlift\<close>

record deadlift_thresholds =
  standingHipAngle :: real
  bendingHipAngle :: real
  bottomHipAngle_deadlift :: real
  liftingHipAngle :: real

definition DeadliftStateMachine :: "deadlift_thresholds sm" where
  "DeadliftStateMachine =
     \<lparr>state = ''standing'', repCount = 0, feedbackMessages = [],
      thresholds = \<lparr>standingHipAngle = 160, bendingHipAngle = 120, bottomHipAngle_deadlift = 90, liftingHipAngle = 120\<rparr>\<rparr>"

definition DeadliftStateMachine_update ::
    "deadlift_thresholds sm \<Rightarrow> angles \<Rightarrow> distances option \<Rightarrow> deadlift_thresholds sm" where
  "DeadliftStateMachine_update m0 angles dists =
     (let m = m0\<lparr>feedbackMessages := []\<rparr> in
      if \<not> truthy (hip angles) then
        m\<lparr>feedbackMessages := feedbackMessages m @
             [\<lparr>msg_type = ''warning'', msg_text = ''Cannot detect pose''\<rparr>]\<rparr>
      else if state m = ''standing'' then
        (if js_less (hip angles) (Number (bendingHipAngle (thresholds m)))
         then m\<lparr>state := ''bending''\<rparr> else m)
      else if state m = ''bending'' then
        (if js_less (hip angles) (Number (bottomHipAngle_deadlift (thresholds m)))
         then m\<lparr>state := ''bottom''\<rparr> else m)
      else if state m = ''bottom'' then
        (if js_greater (hip angles) (Number (bottomHipAngle_deadlift (thresholds m) + 10))
         then m\<lparr>state := ''lifting''\<rparr> else m)
      else if state m = ''lifting'' then
        (if js_greater (hip angles) (Number (standingHipAngle (thresholds m)))
         then m\<lparr>repCount := repCount m + 1,
                feedbackMessages := feedbackMessages m @
                  [\<lparr>msg_type = ''success'', msg_text = ''Good rep!''\<rparr>],
                state := ''standing''\<rparr>
         else m)
      else m)"

definition DeadliftStateMachine_reset :: "deadlift_thresholds sm \<Rightarrow> deadlift_thresholds sm" where
  "DeadliftStateMachine_reset m = m\<lparr>repCount := 0, state := ''standing''\<rparr>"

subsection \<open>Push-up\<close>

record pushup_thresholds =
  upAngle :: real
  descendingAngle_pushup :: real
  bottomAngle_pushup :: real
  ascendingAngle_pushup :: real

definition PushUpStateMachine :: "pushup_thresholds sm" where
  "PushUpStateMachine =
     \<lparr>state = ''up'', repCount = 0, feedbackMessages = [],
      thresholds = \<lparr>upAngle = 160, descendingAngle_pushup = 120, bottomAngle_pushup = 90, ascendingAngle_pushup = 120\<rparr>\<rparr>"

definition PushUpStateMachine_update ::
    "pushup_thresholds sm \<Rightarrow> angles \<Rightarrow> distances option \<Rightarrow> pushup_thresholds sm" where
  "PushUpStateMachine_update m0 angles dists =
     (let m = m0\<lparr>feedbackMessages := []\<rparr> in
      if \<not> truthy (elbow angles) then
        m\<lparr>feedbackMessages := feedbackMessages m @
             [\<lparr>msg_type = ''warning'', msg_text = ''Cannot detect pose''\<rparr>]\<rparr>
      else if state m = ''up'' then
        (if js_less (elbow angles) (Number (descendingAngle_pushup (thresholds m)))
         then m\<lparr>state := ''descending''\<rparr> else m)
      else if state m = ''descending'' then
        (if js_less (elbow angles) (Number (bottomAngle_pushup (thresholds m)))
         then m\<lparr>state := ''bottom''\<rparr> else m)
      else if state m = ''bottom'' then
        (if js_greater (elbow angles) (Number (bottomAngle_pushup (thresholds m) + 10))
         then m\<lparr>state := ''ascending''\<rparr> else m)
      else if state m = ''ascending'' then
        (if js_greater (elbow angles) (Number (upAngle (thresholds m)))
         then m\<lparr>repCount := repCount m + 1,
                feedbackMessages := feedbackMessages m @
                  [\<lparr>msg_type = ''success'', msg_text = ''Good rep!''\<rparr>],
                state := ''up''\<rparr>
         else m)
      else m)"

definition PushUpStateMachine_reset :: "pushup_thresholds sm \<Rightarrow> pushup_thresholds sm" where
  "PushUpStateMachine_reset m = m\<lparr>repCount := 0, state := ''up''\<rparr>"

subsection \<open>Pull-up\<close>

record pullup_thresholds =
  hangingAngle :: real
  pullingAngle :: real
  topAngle :: real
  descendingAngle_pullup :: real

definition PullUpStateMachine :: "pullup_thresholds sm" where
  "PullUpStateMachine =
     \<lparr>state = ''hanging'', repCount = 0, feedbackMessages = [],
      thresholds = \<lparr>hangingAngle = 160, pullingAngle = 120, topAngle = 90, descendingAngle_pullup = 120\<rparr>\<rparr>"

definition PullUpStateMachine_update ::
    "pullup_thresholds sm \<Rightarrow> angles \<Rightarrow> distances option \<Rightarrow> pullup_thresholds sm" where
  "PullUpStateMachine_update m0 angles dists =
     (let m = m0\<lparr>feedbackMessages := []\<rparr> in
      if \<not> truthy (elbow angles) then
        m\<lparr>feedbackMessages := feedbackMessages m @
             [\<lparr>msg_type = ''warning'', msg_text = ''Cannot detect pose''\<rparr>]\<rparr>
      else if state m = ''hanging'' then
        (if js_less (elbow angles) (Number (pullingAngle (thresholds m)))
         then m\<lparr>state := ''pulling''\<rparr> else m)
      else if state m = ''pulling'' then
        (if js_less (elbow angles) (Number (topAngle (thresholds m)))
         then m\<lparr>state := ''top''\<rparr> else m)
      else if state m = ''top'' then
        (if js_greater (elbow angles) (Number (topAngle (thresholds m) + 10))
         then m\<lparr>state := ''descending''\<rparr> else m)
      else if state m = ''descending'' then
        (if js_greater (elbow angles) (Number (hangingAngle (thresholds m)))
         then m\<lparr>repCount := repCount m + 1,
                feedbackMessages := feedbackMessages m @
                  [\<lparr>msg_type = ''success'', msg_text = ''Good rep!''\<rparr>],
                state := ''hanging''\<rparr>
         else m)
      else m)"

definition PullUpStateMachine_reset :: "pullup_thresholds sm \<Rightarrow> pullup_thresholds sm" where
  "PullUpStateMachine_reset m = m\<lparr>repCount := 0, state := ''hanging''\<rparr>"

subsection \<open>Shoulder press\<close>

record shoulderpress_thresholds =
  downElbowAngle :: real
  upElbowAngle :: real
  armBalanceTolerance :: real

definition ShoulderPressStateMachine :: "shoulderpress_thresholds timed_sm" where
  "ShoulderPressStateMachine =
     \<lparr>state = ''down'', repCount = 0, feedbackMessages = [],
      thresholds = \<lparr>downElbowAngle = 100, upElbowAngle = 160, armBalanceTolerance = 20\<rparr>,
      lastRepTime = 0\<rparr>"

text \<open>
  The local \<open>wristsAboveShoulder\<close> of \<open>update\<close>; it is computed from the positions and
  never read afterwards.
\<close>

definition wristsAboveShoulder :: "distances \<Rightarrow> bool" where
  "wristsAboveShoulder p =
     (case (leftWrist p, leftShoulder p, rightWrist p, rightShoulder p) of
        (Some lw, Some ls, Some rw, Some rs) \<Rightarrow> py lw < py ls \<and> py rw < py rs
      | (Some lw, Some ls, _, _) \<Rightarrow> py lw < py ls
      | (_, _, Some rw, Some rs) \<Rightarrow> py rw < py rs
      | _ \<Rightarrow> False)"

definition ShoulderPressStateMachine_update ::
    "nat \<Rightarrow> shoulderpress_thresholds timed_sm \<Rightarrow> angles \<Rightarrow> distances option
       \<Rightarrow> shoulderpress_thresholds timed_sm" where
  "ShoulderPressStateMachine_update now m0 angles positions =
     (let m = m0\<lparr>feedbackMessages := []\<rparr> in
      if \<not> truthy (leftElbow angles) \<and> \<not> truthy (rightElbow angles) then
        m\<lparr>feedbackMessages := feedbackMessages m @
             [\<lparr>msg_type = ''warning'', msg_text = ''Face camera - ensure arms visible''\<rparr>]\<rparr>
      else
        (let avgElbow =
               (if truthy (leftElbow angles) \<and> truthy (rightElbow angles)
                then js_half (js_add (leftElbow angles) (rightElbow angles))
                else js_or (leftElbow angles) (rightElbow angles));
             m1 =
               (if truthy (leftElbow angles) \<and> truthy (rightElbow angles) \<and>
                   js_greater (Math_abs (js_sub (leftElbow angles) (rightElbow angles)))
                     (Number (armBalanceTolerance (thresholds m)))
                then m\<lparr>feedbackMessages := feedbackMessages m @
                       [\<lparr>msg_type = ''warning'', msg_text = ''Balance both arms evenly''\<rparr>]\<rparr>
                else m);
             above = wristsAboveShoulder (case positions of None \<Rightarrow> no_distances | Some p \<Rightarrow> p)
         in if state m1 = ''down'' then
              (if js_greater avgElbow (Number (upElbowAngle (thresholds m1)))
               then m1\<lparr>state := ''up''\<rparr> else m1)
            else if state m1 = ''up'' then
              (if js_less avgElbow (Number (downElbowAngle (thresholds m1)))
               then m1\<lparr>repCount := repCount m1 + 1,
                       feedbackMessages := feedbackMessages m1 @
                         [\<lparr>msg_type = ''success'', msg_text = ''Good rep!''\<rparr>],
                       state := ''down'',
                       lastRepTime := now\<rparr>
               else m1)
            else m1))"

definition ShoulderPressStateMachine_reset ::
    "shoulderpress_thresholds timed_sm \<Rightarrow> shoulderpress_thresholds timed_sm" where
  "ShoulderPressStateMachine_reset m = m\<lparr>repCount := 0, state := ''down''\<rparr>"

subsection \<open>Lateral raise\<close>

record lateralraise_thresholds =
  downAngle :: real
  raisingAngle :: real
  topAngle_lateralraise :: real
  loweringAngle :: real

definition LateralRaiseStateMachine :: "lateralraise_thresholds sm" where
  "LateralRaiseStateMachine =
     \<lparr>state = ''down'', repCount = 0, feedbackMessages = [],
      thresholds = \<lparr>downAngle = 30, raisingAngle = 60, topAngle_lateralraise = 90, loweringAngle = 60\<rparr>\<rparr>"

definition LateralRaiseStateMachine_update ::
    "lateralraise_thresholds sm \<Rightarrow> angles \<Rightarrow> distances option \<Rightarrow> lateralraise_thresholds sm" where
  "LateralRaiseStateMachine_update m0 angles dists =
     (let m = m0\<lparr>feedbackMessages := []\<rparr> in
      if \<not> truthy (shoulder angles) then
        m\<lparr>feedbackMessages := feedbackMessages m @
             [\<lparr>msg_type = ''warning'', msg_text = ''Cannot detect pose''\<rparr>]\<rparr>
      else if state m = ''down'' then
        (if js_greater (shoulder angles) (Number (raisingAngle (thresholds m)))
         then m\<lparr>state := ''raising''\<rparr> else m)
      else if state m = ''raising'' then
        (if js_greater (shoulder angles) (Number (topAngle_lateralraise (thresholds m)))
         then m\<lparr>state := ''top''\<rparr> else m)
      else if state m = ''top'' then
        (if js_less (shoulder angles) (Number (topAngle_lateralraise (thresholds m) - 10))
         then m\<lparr>state := ''lowering''\<rparr> else m)
      else if state m = ''lowering'' then
        (if js_less (shoulder angles) (Number (downAngle (thresholds m)))
         then m\<lparr>repCount := repCount m + 1,
                feedbackMessages := feedbackMessages m @
                  [\<lparr>msg_type = ''success'', msg_text = ''Good rep!''\<rparr>],
                state := ''down''\<rparr>
         else m)
      else m)"

definition LateralRaiseStateMachine_reset :: "lateralraise_thresholds sm \<Rightarrow> lateralraise_thresholds sm" where
  "LateralRaiseStateMachine_reset m = m\<lparr>repCount := 0, state := ''down''\<rparr>"

subsection \<open>Lunge\<close>

record lunge_thresholds =
  standingKneeAngle :: real
  descendingKneeAngle :: real
  bottomKneeAngle_lunge :: real
  ascendingKneeAngle :: real

definition LungeStateMachine :: "lunge_thresholds sm" where
  "LungeStateMachine =
     \<lparr>state = ''standing'', repCount = 0, feedbackMessages = [],
      thresholds = \<lparr>standingKneeAngle = 160, descendingKneeAngle = 120, bottomKneeAngle_lunge = 90, ascendingKneeAngle = 120\<rparr>\<rparr>"

definition LungeStateMachine_update ::
    "lunge_thresholds sm \<Rightarrow> angles \<Rightarrow> distances option \<Rightarrow> lunge_thresholds sm" where
  "LungeStateMachine_update m0 angles dists =
     (let m = m0\<lparr>feedbackMessages := []\<rparr> in
      if \<not> truthy (knee angles) then
        m\<lparr>feedbackMessages := feedbackMessages m @
             [\<lparr>msg_type = ''warning'', msg_text = ''Cannot detect pose''\<rparr>]\<rparr>
      else if state m = ''standing'' then
        (if js_less (knee angles) (Number (descendingKneeAngle (thresholds m)))
         then m\<lparr>state := ''descending''\<rparr> else m)
      else if state m = ''descending'' then
        (if js_less (knee angles) (Number (bottomKneeAngle_lunge (thresholds m)))
         then m\<lparr>state := ''bottom''\<rparr> else m)
      else if state m = ''bottom'' then
        (if js_greater (knee angles) (Number (bottomKneeAngle_lunge (thresholds m) + 10))
         then m\<lparr>state := ''ascending''\<rparr> else m)
      else if state m = ''ascending'' then
        (if js_greater (knee angles) (Number (standingKneeAngle (thresholds m)))
         then m\<lparr>repCount := repCount m + 1,
                feedbackMessages := feedbackMessages m @
                  [\<lparr>msg_type = ''success'', msg_text = ''Good rep!''\<rparr>],
                state := ''standing''\<rparr>
         else m)
      else m)"

definition LungeStateMachine_reset :: "lunge_thresholds sm \<Rightarrow> lunge_thresholds sm" where
  "LungeStateMachine_reset m = m\<lparr>repCount := 0, state := ''standing''\<rparr>"

section \<open>The machine behind \<open>stateMachineRef\<close>\<close>

text \<open>
  \<open>WorkoutTracker\<close> keeps one instance of each class and calls \<open>update\<close>, \<open>reset\<close>,
  \<open>state\<close>, \<open>repCount\<close> and \<open>feedbackMessages\<close> on whichever is active. The sum type
  says which class an object belongs to; the functions below are the method calls.
\<close>

datatype machine =
    Squat squat_sm
  | BenchPress "bench_thresholds sm"
  | Deadlift "deadlift_thresholds sm"
  | PushUp "pushup_thresholds sm"
  | PullUp "pullup_thresholds sm"
  | ShoulderPress "shoulderpress_thresholds timed_sm"
  | LateralRaise "lateralraise_thresholds sm"
  | Lunge "lunge_thresholds sm"

fun update :: "nat \<Rightarrow> machine \<Rightarrow> angles \<Rightarrow> distances option \<Rightarrow> machine" where
  "update now (Squat m) a d = Squat (SquatStateMachine_update now m a d)"
| "update now (BenchPress m) a d = BenchPress (BenchPressStateMachine_update m a d)"
| "update now (Deadlift m) a d = Deadlift (DeadliftStateMachine_update m a d)"
| "update now (PushUp m) a d = PushUp (PushUpStateMachine_update m a d)"
| "update now (PullUp m) a d = PullUp (PullUpStateMachine_update m a d)"
| "update now (ShoulderPress m) a d = ShoulderPress (ShoulderPressStateMachine_update now m a d)"
| "update now (LateralRaise m) a d = LateralRaise (LateralRaiseStateMachine_update m a d)"
| "update now (Lunge m) a d = Lunge (LungeStateMachine_update m a d)"

fun reset :: "machine \<Rightarrow> machine" where
  "reset (Squat m) = Squat (SquatStateMachine_reset m)"
| "reset (BenchPress m) = BenchPress (BenchPressStateMachine_reset m)"
| "reset (Deadlift m) = Deadlift (DeadliftStateMachine_reset m)"
| "reset (PushUp m) = PushUp (PushUpStateMachine_reset m)"
| "reset (PullUp m) = PullUp (PullUpStateMachine_reset m)"
| "reset (ShoulderPress m) = ShoulderPress (ShoulderPressStateMachine_reset m)"
| "reset (LateralRaise m) = LateralRaise (LateralRaiseStateMachine_reset m)"
| "reset (Lunge m) = Lunge (LungeStateMachine_reset m)"

fun state_of :: "machine \<Rightarrow> string" where
  "state_of (Squat m) = state m"
| "state_of (BenchPress m) = state m"
| "state_of (Deadlift m) = state m"
| "state_of (PushUp m) = state m"
| "state_of (PullUp m) = state m"
| "state_of (ShoulderPress m) = state m"
| "state_of (LateralRaise m) = state m"
| "state_of (Lunge m) = state m"

fun repCount_of :: "machine \<Rightarrow> nat" where
  "repCount_of (Squat m) = repCount m"
| "repCount_of (BenchPress m) = repCount m"
| "repCount_of (Deadlift m) = repCount m"
| "repCount_of (PushUp m) = repCount m"
| "repCount_of (PullUp m) = repCount m"
| "repCount_of (ShoulderPress m) = repCount m"
| "repCount_of (LateralRaise m) = repCount m"
| "repCount_of (Lunge m) = repCount m"

fun feedbackMessages_of :: "machine \<Rightarrow> feedback list" where
  "feedbackMessages_of (Squat m) = feedbackMessages m"
| "feedbackMessages_of (BenchPress m) = feedbackMessages m"
| "feedbackMessages_of (Deadlift m) = feedbackMessages m"
| "feedbackMessages_of (PushUp m) = feedbackMessages m"
| "feedbackMessages_of (PullUp m) = feedbackMessages m"
| "feedbackMessages_of (ShoulderPress m) = feedbackMessages m"
| "feedbackMessages_of (LateralRaise m) = feedbackMessages m"
| "feedbackMessages_of (Lunge m) = feedbackMessages m"

text \<open>\<open>lastRepTime\<close>: only two classes have the field, the others read \<open>undefined\<close>.\<close>

fun lastRepTime_of :: "machine \<Rightarrow> nat option" where
  "lastRepTime_of (Squat m) = Some (lastRepTime m)"
| "lastRepTime_of (ShoulderPress m) = Some (lastRepTime m)"
| "lastRepTime_of m = None"

text \<open>
  The object a constructor call returns, by the key \<open>initializeStateMachines\<close> stores it
  under.
\<close>

definition exercise_keys :: "string list" where
  "exercise_keys = [''squat'', ''bench'', ''deadlift'', ''pushup'', ''pullup'',
     ''shoulderpress'', ''lateralraise'', ''lunge'']"

definition new_machine :: "string \<Rightarrow> machine option" where
  "new_machine k =
     (if k = ''squat'' then Some (Squat SquatStateMachine)
      else if k = ''bench'' then Some (BenchPress BenchPressStateMachine)
      else if k = ''deadlift'' then Some (Deadlift DeadliftStateMachine)
      else if k = ''pushup'' then Some (PushUp PushUpStateMachine)
      else if k = ''pullup'' then Some (PullUp PullUpStateMachine)
      else if k = ''shoulderpress'' then Some (ShoulderPress ShoulderPressStateMachine)
      else if k = ''lateralraise'' then Some (LateralRaise LateralRaiseStateMachine)
      else if k = ''lunge'' then Some (Lunge LungeStateMachine)
      else None)"

text \<open>
  A frame is one call of \<open>update\<close>: the clock reading, the angles and the second argument.
  \<open>run\<close> makes the calls of a list of frames in order.
\<close>

type_synonym frame = "nat \<times> angles \<times> distances option"

fun run :: "machine \<Rightarrow> frame list \<Rightarrow> machine" where
  "run m [] = m"
| "run m ((now, a, d) # fs) = run (update now m a d) fs"

section \<open>Geometry\<close>

text \<open>
  \<open>Math.atan2\<close> and the angles on real numbers: the rounding of doubles and the sign of
  zero are not modelled. A point is \<open>{x, y}\<close> or \<open>null\<close>.
\<close>

definition Math_atan2 :: "real \<Rightarrow> real \<Rightarrow> real" where
  "Math_atan2 y x =
     (if 0 < x then arctan (y / x)
      else if x < 0 \<and> 0 \<le> y then arctan (y / x) + pi
      else if x < 0 then arctan (y / x) - pi
      else if 0 < y then pi / 2
      else if y < 0 then - (pi / 2)
      else 0)"

definition calculateAngle :: "point option \<Rightarrow> point option \<Rightarrow> point option \<Rightarrow> jsval" where
  "calculateAngle pointA pointB pointC =
     (case (pointA, pointB, pointC) of
        (Some a, Some b, Some c) \<Rightarrow>
          (let radians1 = Math_atan2 (py a - py b) (px a - px b);
               radians2 = Math_atan2 (py c - py b) (px c - px b);
               angle = \<bar>radians1 - radians2\<bar> * (180 / pi)
           in Number (if angle > 180 then 360 - angle else angle))
      | _ \<Rightarrow> Null)"

definition calculateVerticalAngle :: "point option \<Rightarrow> point option \<Rightarrow> jsval" where
  "calculateVerticalAngle point1 point2 =
     (case (point1, point2) of
        (Some p1, Some p2) \<Rightarrow>
          (let dx = px p2 - px p1; dy = py p2 - py p1
           in Number \<bar>Math_atan2 dx dy * (180 / pi)\<bar>)
      | _ \<Rightarrow> Null)"

definition calculateHorizontalDistance :: "point option \<Rightarrow> point option \<Rightarrow> jsval" where
  "calculateHorizontalDistance point1 point2 =
     (case (point1, point2) of
        (Some p1, Some p2) \<Rightarrow> Number \<bar>px p1 - px p2\<bar>
      | _ \<Rightarrow> Null)"

definition calculateDistance :: "point option \<Rightarrow> point option \<Rightarrow> jsval" where
  "calculateDistance point1 point2 =
     (case (point1, point2) of
        (Some p1, Some p2) \<Rightarrow>
          (let dx = px p2 - px p1; dy = py p2 - py p1 in Number (sqrt (dx * dx + dy * dy)))
      | _ \<Rightarrow> Null)"

section \<open>The frame loop of \<open>WorkoutTracker\<close>\<close>

text \<open>
  A pose is the array \<open>pose.keypoints\<close> of the detector: for MoveNet 17 entries
  \<open>{x, y, score, name}\<close>, in a fixed order (5 and 6 the shoulders, 7 and 8 the elbows,
  9 and 10 the wrists, 11 and 12 the hips, 13 and 14 the knees, 15 and 16 the ankles, left
  before right).
\<close>

record keypoint =
  kp_x :: real
  kp_y :: real
  score :: real

text \<open>
  \<open>getPoint\<close> reads \<open>keypoints[index]\<close>. The callers pass a number or a name; an array
  has no property called \<open>left_shoulder\<close> and the like, so with a name the read gives
  \<open>undefined\<close> and \<open>getPoint\<close> returns \<open>null\<close>. Every caller leaves
  \<open>minConfidence\<close> at its default 0.3.
\<close>

datatype index = Idx nat | Key string

definition getPoint :: "keypoint list \<Rightarrow> index \<Rightarrow> point option" where
  "getPoint keypoints index =
     (let minConfidence = 0.3 in
      case index of
        Key s \<Rightarrow> None
      | Idx i \<Rightarrow>
          (if i < length keypoints
           then (let kp = keypoints ! i
                 in if score kp \<ge> minConfidence then Some \<lparr>px = kp_x kp, py = kp_y kp\<rparr> else None)
           else None))"

text \<open>\<open>a || b\<close> on points: an object is truthy, \<open>null\<close> is not.\<close>

definition or_else :: "point option \<Rightarrow> point option \<Rightarrow> point option" where
  "or_else a b = (case a of Some p \<Rightarrow> Some p | None \<Rightarrow> b)"

text \<open>
  The \<open>switch\<close> of \<open>updateExerciseState\<close> that fills \<open>angles\<close> and \<open>distances\<close> for
  the current exercise.
\<close>

definition exerciseAngles :: "string \<Rightarrow> keypoint list \<Rightarrow> angles \<times> distances" where
  "exerciseAngles ex keypoints =
     (if ex = ''squat'' then
        (let leftShoulder_pt = getPoint keypoints (Idx 5);
             leftHip_pt = getPoint keypoints (Idx 11);
             leftKnee_pt = getPoint keypoints (Idx 13);
             leftAnkle_pt = getPoint keypoints (Idx 15);
             rightShoulder_pt = getPoint keypoints (Idx 6);
             rightHip_pt = getPoint keypoints (Idx 12);
             rightKnee_pt = getPoint keypoints (Idx 14);
             rightAnkle_pt = getPoint keypoints (Idx 16);
             shoulder_pt = or_else leftShoulder_pt rightShoulder_pt;
             hip_pt = or_else leftHip_pt rightHip_pt;
             knee_pt = or_else leftKnee_pt rightKnee_pt;
             ankle_pt = or_else leftAnkle_pt rightAnkle_pt
         in case (hip_pt, knee_pt, ankle_pt, shoulder_pt) of
              (Some h, Some k, Some an, Some sh) \<Rightarrow>
                (no_angles\<lparr>knee := calculateAngle hip_pt knee_pt ankle_pt,
                            hip := calculateAngle shoulder_pt hip_pt knee_pt,
                            torsoLean := calculateVerticalAngle shoulder_pt hip_pt\<rparr>,
                 no_distances\<lparr>kneeToe := calculateHorizontalDistance knee_pt ankle_pt,
                               legLength := Number \<bar>py h - py an\<bar>\<rparr>)
            | _ \<Rightarrow> (no_angles, no_distances))
      else if ex = ''bench'' \<or> ex = ''pushup'' then
        (let shoulder_pt = or_else (getPoint keypoints (Key ''left_shoulder''))
                                   (getPoint keypoints (Key ''right_shoulder''));
             elbow_pt = or_else (getPoint keypoints (Key ''left_elbow''))
                                (getPoint keypoints (Key ''right_elbow''));
             wrist_pt = or_else (getPoint keypoints (Key ''left_wrist''))
                                (getPoint keypoints (Key ''right_wrist''))
         in case (shoulder_pt, elbow_pt, wrist_pt) of
              (Some sh, Some el, Some wr) \<Rightarrow>
                (no_angles\<lparr>elbow := calculateAngle shoulder_pt elbow_pt wrist_pt\<rparr>, no_distances)
            | _ \<Rightarrow> (no_angles, no_distances))
      else if ex = ''deadlift'' then
        (let shoulder_pt = getPoint keypoints (Key ''left_shoulder'');
             hip_pt = getPoint keypoints (Key ''left_hip'');
             knee_pt = getPoint keypoints (Key ''left_knee'');
             ankle_pt = getPoint keypoints (Key ''left_ankle'')
         in case (shoulder_pt, hip_pt, knee_pt, ankle_pt) of
              (Some sh, Some h, Some k, Some an) \<Rightarrow>
                (no_angles\<lparr>hip := calculateAngle shoulder_pt hip_pt knee_pt,
                            knee := calculateAngle hip_pt knee_pt ankle_pt,
                            backAngle := calculateVerticalAngle shoulder_pt hip_pt\<rparr>,
                 no_distances)
            | _ \<Rightarrow> (no_angles, no_distances))
      else if ex = ''pullup'' then
        (let shoulder_pt = or_else (getPoint keypoints (Idx 5)) (getPoint keypoints (Idx 6));
             elbow_pt = or_else (getPoint keypoints (Idx 7)) (getPoint keypoints (Idx 8));
             wrist_pt = or_else (getPoint keypoints (Idx 9)) (getPoint keypoints (Idx 10))
         in case (shoulder_pt, elbow_pt, wrist_pt) of
              (Some sh, Some el, Some wr) \<Rightarrow>
                (no_angles\<lparr>elbow := calculateAngle shoulder_pt elbow_pt wrist_pt\<rparr>, no_distances)
            | _ \<Rightarrow> (no_angles, no_distances))
      else if ex = ''shoulderpress'' then
        (let leftShoulder_pt = getPoint keypoints (Idx 5);
             leftElbow_pt = getPoint keypoints (Idx 7);
             leftWrist_pt = getPoint keypoints (Idx 9);
             rightShoulder_pt = getPoint keypoints (Idx 6);
             rightElbow_pt = getPoint keypoints (Idx 8);
             rightWrist_pt = getPoint keypoints (Idx 10);
             a1 = (case (leftShoulder_pt, leftElbow_pt, leftWrist_pt) of
                     (Some sh, Some el, Some wr) \<Rightarrow>
                       no_angles\<lparr>leftElbow := calculateAngle leftShoulder_pt leftElbow_pt leftWrist_pt\<rparr>
                   | _ \<Rightarrow> no_angles);
             a2 = (case (rightShoulder_pt, rightElbow_pt, rightWrist_pt) of
                     (Some sh, Some el, Some wr) \<Rightarrow>
                       a1\<lparr>rightElbow := calculateAngle rightShoulder_pt rightElbow_pt rightWrist_pt\<rparr>
                   | _ \<Rightarrow> a1)
         in (a2, no_distances\<lparr>leftWrist := leftWrist_pt, rightWrist := rightWrist_pt,
                               leftShoulder := leftShoulder_pt, rightShoulder := rightShoulder_pt\<rparr>))
      else if ex = ''lateralraise'' then
        (let shoulder_pt = or_else (getPoint keypoints (Idx 5)) (getPoint keypoints (Idx 6));
             elbow_pt = or_else (getPoint keypoints (Idx 7)) (getPoint keypoints (Idx 8));
             hip_pt = or_else (getPoint keypoints (Idx 11)) (getPoint keypoints (Idx 12))
         in case (shoulder_pt, elbow_pt, hip_pt) of
              (Some sh, Some el, Some h) \<Rightarrow>
                (no_angles\<lparr>shoulder := calculateAngle hip_pt shoulder_pt elbow_pt\<rparr>, no_distances)
            | _ \<Rightarrow> (no_angles, no_distances))
      else if ex = ''lunge'' then
        (let hip_pt = or_else (getPoint keypoints (Idx 11)) (getPoint keypoints (Idx 12));
             knee_pt = or_else (getPoint keypoints (Idx 13)) (getPoint keypoints (Idx 14));
             ankle_pt = or_else (getPoint keypoints (Idx 15)) (getPoint keypoints (Idx 16))
         in case (hip_pt, knee_pt, ankle_pt) of
              (Some h, Some k, Some an) \<Rightarrow>
                (no_angles\<lparr>knee := calculateAngle hip_pt knee_pt ankle_pt\<rparr>, no_distances)
            | _ \<Rightarrow> (no_angles, no_distances))
      else (no_angles, no_distances))"

section \<open>The session state of \<open>WorkoutTracker\<close>\<close>

text \<open>
  The state variables and refs the counting handlers read and write. \<open>repCount_shown\<close> is
  the component's \<open>repCount\<close> (the name is taken by the machines' field).
  \<open>stateMachines\<close> is the object in \<open>stateMachinesRef\<close>; \<open>stateMachineRef\<close> holds a
  reference to one of its values, modelled as that value's key, so an \<open>update\<close> through
  the reference is seen in the object. The refs \<open>isCountingRef\<close> and
  \<open>currentExerciseRef\<close> are copies that an effect refreshes after every render; they are
  identified with \<open>isCounting\<close> and \<open>currentExercise\<close>. \<open>spoken\<close> collects what is
  handed to \<open>voiceAssistantService.speak\<close>, \<open>requests\<close> the \<open>workouts\<close> sent to the
  calorie endpoint. State updates take effect when the handler returns.

  \<open>currentUser\<close> is the signed-in user (\<open>None\<close> for \<open>null\<close>), fixed for the session.
  \<open>workoutLogSets\<close> counts the calls of \<open>setWorkoutLog\<close>: each installs a new array,
  and the voice effect compares the array, not its entries. \<open>voiceRepCount\<close> is the
  \<open>repCount\<close> of the render in which that effect last ran: the voice handler it
  installed calls the \<open>handleEndWorkout\<close> of that render, which closed over that value.
\<close>

record log_entry =
  exercise :: string
  reps :: nat
  entry_name :: string

record tracker =
  currentExercise :: string
  isWorkoutActive :: bool
  isCounting :: bool
  repCount_shown :: nat
  currentState :: string
  formQuality :: string
  workoutLog :: "log_entry list"
  isCalculating :: bool
  stateMachines :: "string \<Rightarrow> machine option"
  stateMachineRef :: "string option"
  ttsEnabled :: bool
  spoken :: "string list"
  requests :: "log_entry list list"
  currentUser :: "string option"
  workoutLogSets :: nat
  voiceRepCount :: nat

datatype js_error = TypeError

text \<open>\<open>EXERCISES[key].name\<close>; reading \<open>.name\<close> of a key that is not there throws.\<close>

definition EXERCISES_name :: "string \<Rightarrow> string option" where
  "EXERCISES_name k =
     (if k = ''squat'' then Some ''Squats''
      else if k = ''bench'' then Some ''Bench Press''
      else if k = ''deadlift'' then Some ''Deadlift''
      else if k = ''pushup'' then Some ''Push-ups''
      else if k = ''pullup'' then Some ''Pull-ups''
      else if k = ''shoulderpress'' then Some ''Shoulder Press''
      else if k = ''lateralraise'' then Some ''Lateral Raises''
      else if k = ''lunge'' then Some ''Lunges''
      else None)"

text \<open>The component as first rendered, before the model has loaded.\<close>

definition WorkoutTracker :: "bool \<Rightarrow> string option \<Rightarrow> tracker" where
  "WorkoutTracker tts user =
     \<lparr>currentExercise = ''squat'', isWorkoutActive = False, isCounting = False,
      repCount_shown = 0, currentState = ''Standing'', formQuality = ''Perfect'',
      workoutLog = [], isCalculating = False, stateMachines = (\<lambda>k. None),
      stateMachineRef = None, ttsEnabled = tts, spoken = [], requests = [],
      currentUser = user, workoutLogSets = 0, voiceRepCount = 0\<rparr>"

definition initializeStateMachines :: "tracker \<Rightarrow> tracker" where
  "initializeStateMachines t =
     t\<lparr>stateMachines := new_machine, stateMachineRef := Some ''squat''\<rparr>"

definition speakFeedback :: "string \<Rightarrow> tracker \<Rightarrow> tracker" where
  "speakFeedback message t = (if ttsEnabled t then t\<lparr>spoken := spoken t @ [message]\<rparr> else t)"

text \<open>The decimal digits of a count, for the template \<open>Rep ${newRepCount}\<close>.\<close>

fun digits :: "nat \<Rightarrow> string" where
  "digits n =
     (if n < 10 then [''0123456789'' ! n]
      else digits (n div 10) @ [''0123456789'' ! (n mod 10)])"

declare digits.simps [simp del]

definition updateExerciseState :: "nat \<Rightarrow> keypoint list \<Rightarrow> tracker \<Rightarrow> tracker" where
  "updateExerciseState now pose t =
     (case stateMachineRef t of
        None \<Rightarrow> t
      | Some r \<Rightarrow>
          (case stateMachines t r of
             None \<Rightarrow> t
           | Some sm \<Rightarrow>
               (let (angles, dists) = exerciseAngles (currentExercise t) pose;
                    prevRepCount = repCount_of sm;
                    sm' = update now sm angles (Some dists);
                    newState = state_of sm';
                    newRepCount = repCount_of sm';
                    t1 = t\<lparr>stateMachines := (stateMachines t)(r := Some sm')\<rparr>;
                    t2 = (if newRepCount > prevRepCount
                          then speakFeedback (''Rep '' @ digits newRepCount)
                                 (t1\<lparr>repCount_shown := newRepCount\<rparr>)
                          else t1);
                    t3 = t2\<lparr>currentState := newState\<rparr>;
                    fb = feedbackMessages_of sm'
                in if fb \<noteq> [] then
                     (if \<exists>f \<in> set fb. msg_type f = ''error'' then t3\<lparr>formQuality := ''Poor''\<rparr>
                      else if \<exists>f \<in> set fb. msg_type f = ''warning'' then t3\<lparr>formQuality := ''Good''\<rparr>
                      else t3\<lparr>formQuality := ''Perfect''\<rparr>)
                   else t3)))"

text \<open>
  One turn of \<open>detect\<close> with the poses the detector returned: only the first pose counts,
  and only while counting is on.
\<close>

definition detect :: "nat \<Rightarrow> keypoint list list \<Rightarrow> tracker \<Rightarrow> tracker" where
  "detect now poses t =
     (case poses of
        [] \<Rightarrow> t
      | pose # _ \<Rightarrow> (if isCounting t then updateExerciseState now pose t else t))"

definition handleExerciseChange :: "string \<Rightarrow> tracker \<Rightarrow> tracker" where
  "handleExerciseChange ex t =
     (if isCounting t then speakFeedback ''Please stop counting before changing exercise.'' t
      else t\<lparr>currentExercise := ex,
             stateMachineRef := (case stateMachines t ex of None \<Rightarrow> None | Some sm \<Rightarrow> Some ex),
             repCount_shown := 0,
             currentState := ''Standing'',
             formQuality := ''Perfect''\<rparr>)"

definition handleStartCounting :: "tracker \<Rightarrow> js_error + tracker" where
  "handleStartCounting t =
     (case EXERCISES_name (currentExercise t) of
        None \<Rightarrow> Inl TypeError
      | Some nm \<Rightarrow> Inr (speakFeedback (''Starting '' @ nm @ ''. Let's go!'') (t\<lparr>isCounting := True\<rparr>)))"

text \<open>\<open>existingLog.reps += n\<close> on the entry that \<open>find\<close> returns: the first of that exercise.\<close>

fun add_reps :: "string \<Rightarrow> nat \<Rightarrow> log_entry list \<Rightarrow> log_entry list" where
  "add_reps k n [] = []"
| "add_reps k n (e # es) =
     (if exercise e = k then e\<lparr>reps := reps e + n\<rparr> # es else e # add_reps k n es)"

definition handleStopCounting :: "tracker \<Rightarrow> js_error + tracker" where
  "handleStopCounting t =
     (if isCounting t \<and> repCount_shown t > 0 then
        (case find (\<lambda>entry. exercise entry = currentExercise t) (workoutLog t) of
           Some existingLog \<Rightarrow>
             Inr (speakFeedback ''Counting paused.''
                   (t\<lparr>workoutLog := add_reps (currentExercise t) (repCount_shown t) (workoutLog t),
                      isCounting := False\<rparr>))
         | None \<Rightarrow>
             (case EXERCISES_name (currentExercise t) of
                None \<Rightarrow> Inl TypeError
              | Some nm \<Rightarrow>
                  Inr (speakFeedback ''Counting paused.''
                        (t\<lparr>workoutLog := workoutLog t @
                              [\<lparr>exercise = currentExercise t, reps = repCount_shown t,
                                entry_name = nm\<rparr>],
                           workoutLogSets := workoutLogSets t + 1,
                           isCounting := False\<rparr>))))
      else Inr (speakFeedback ''Counting paused.'' (t\<lparr>isCounting := False\<rparr>)))"

text \<open>
  \<open>handleEndWorkout\<close> up to its \<open>await fetch\<close>: the copy \<open>finalLog\<close> shares its
  entries with \<open>workoutLog\<close>, so the \<open>+=\<close> on an existing entry shows in both, and the
  \<open>push\<close> only in the copy. What happens when the response arrives is not modelled.
  The function reads \<open>repCount\<close> from the render that created it, here the argument
  \<open>repCount_seen\<close>: the button calls the function of the current render, the voice
  handler the one of the render in which its effect last ran. The log and the current
  exercise it reads are the current ones on both paths, as both are dependencies of that
  effect and the entries of the log are shared.
\<close>

definition handleEndWorkout :: "nat \<Rightarrow> tracker \<Rightarrow> js_error + tracker" where
  "handleEndWorkout repCount_seen t =
     (let t1 = t\<lparr>isCounting := False, isWorkoutActive := False, isCalculating := True\<rparr> in
      if repCount_seen > 0 then
        (case find (\<lambda>entry. exercise entry = currentExercise t) (workoutLog t) of
           Some existingLog \<Rightarrow>
             (let log' = add_reps (currentExercise t) repCount_seen (workoutLog t)
              in Inr (t1\<lparr>workoutLog := log', requests := requests t @ [log']\<rparr>))
         | None \<Rightarrow>
             (case EXERCISES_name (currentExercise t) of
                None \<Rightarrow> Inl TypeError
              | Some nm \<Rightarrow>
                  Inr (t1\<lparr>requests := requests t @
                         [workoutLog t @ [\<lparr>exercise = currentExercise t,
                            reps = repCount_seen, entry_name = nm\<rparr>]]\<rparr>)))
      else Inr (t1\<lparr>requests := requests t @ [workoutLog t]\<rparr>))"

definition resetWorkout :: "tracker \<Rightarrow> tracker" where
  "resetWorkout t =
     t\<lparr>workoutLog := [], workoutLogSets := workoutLogSets t + 1, repCount_shown := 0,
       currentState := ''Standing'', formQuality := ''Perfect'',
       stateMachines := (\<lambda>k. map_option reset (stateMachines t k))\<rparr>"

text \<open>
  The voice commands: \<open>handleVoiceCommand\<close> as the effect last installed it, run on a
  final transcript. \<open>toLowerCase\<close> is modelled on the letters A to Z, \<open>includes\<close> as
  the search for a substring. The state it reads (\<open>isWorkoutActive\<close>, \<open>isCounting\<close>,
  \<open>currentExercise\<close>) is current, since each is a dependency of the effect; the
  \<open>handleEndWorkout\<close> it calls is the one of the render of its installation.
\<close>

definition toLowerCase :: "string \<Rightarrow> string" where
  "toLowerCase s =
     map (\<lambda>c. case map_of (zip ''ABCDEFGHIJKLMNOPQRSTUVWXYZ'' ''abcdefghijklmnopqrstuvwxyz'') c of
                 Some l \<Rightarrow> l | None \<Rightarrow> c) s"

fun str_includes :: "string \<Rightarrow> string \<Rightarrow> bool" where
  "str_includes [] sub = (sub = [])"
| "str_includes (c # cs) sub = (take (length sub) (c # cs) = sub \<or> str_includes cs sub)"

definition handleVoiceCommand :: "string \<Rightarrow> tracker \<Rightarrow> js_error + tracker" where
  "handleVoiceCommand command t =
     (let lowerCommand = toLowerCase command in
      if str_includes lowerCommand ''initiate workout'' \<or>
         str_includes lowerCommand ''start workout session'' then
        (if \<not> isWorkoutActive t
         then Inr (speakFeedback ''Workout session initiated. Select an exercise to begin.''
                    (t\<lparr>isWorkoutActive := True\<rparr>))
         else Inr t)
      else if str_includes lowerCommand ''start workout'' \<or>
              str_includes lowerCommand ''begin counting'' then
        (if isWorkoutActive t \<and> \<not> isCounting t
         then (case EXERCISES_name (currentExercise t) of
                 None \<Rightarrow> Inl TypeError
               | Some nm \<Rightarrow>
                   Inr (speakFeedback (''Starting '' @ nm @ ''. Let's go!'') (t\<lparr>isCounting := True\<rparr>)))
         else Inr t)
      else if str_includes lowerCommand ''stop counting'' \<or>
              str_includes lowerCommand ''pause counting'' then
        (if isCounting t
         then Inr (speakFeedback ''Counting paused.'' (t\<lparr>isCounting := False\<rparr>))
         else Inr t)
      else if str_includes lowerCommand ''end workout'' \<or>
              str_includes lowerCommand ''finish workout'' then
        (if isWorkoutActive t then handleEndWorkout (voiceRepCount t) t else Inr t)
      else Inr t)"

text \<open>
  The effect that installs the voice handler has the dependencies \<open>currentUser\<close>,
  \<open>isWorkoutActive\<close>, \<open>isCounting\<close>, \<open>currentExercise\<close> and \<open>workoutLog\<close>, and not
  \<open>repCount\<close>. After the render that follows a handler, from state \<open>t\<close> to \<open>t'\<close>, it
  runs again when one of them has changed, and the new handler sees the \<open>repCount\<close> of
  that render.
\<close>

definition voiceEffect :: "tracker \<Rightarrow> tracker \<Rightarrow> tracker" where
  "voiceEffect t t' =
     (if isWorkoutActive t' \<noteq> isWorkoutActive t \<or> isCounting t' \<noteq> isCounting t \<or>
         currentExercise t' \<noteq> currentExercise t \<or> workoutLogSets t' \<noteq> workoutLogSets t
      then t'\<lparr>voiceRepCount := repCount_shown t'\<rparr>
      else t')"

text \<open>
  What can happen to the component, and a session as the list of what happened; a handler
  that throws ends the session with the error. Without a signed-in user the effect installs
  no voice handler, and a transcript changes nothing.
\<close>

datatype event =
    ModelLoaded
  | StartWorkoutSession
  | Frame nat "keypoint list list"
  | ExerciseChange string
  | StartCounting
  | StopCounting
  | VoiceCommand string
  | EndWorkout
  | ResetWorkout

fun handler :: "event \<Rightarrow> tracker \<Rightarrow> js_error + tracker" where
  "handler ModelLoaded t = Inr (initializeStateMachines t)"
| "handler StartWorkoutSession t = Inr (t\<lparr>isWorkoutActive := True\<rparr>)"
| "handler (Frame now poses) t = Inr (detect now poses t)"
| "handler (ExerciseChange ex) t = Inr (handleExerciseChange ex t)"
| "handler StartCounting t = handleStartCounting t"
| "handler StopCounting t = handleStopCounting t"
| "handler (VoiceCommand command) t =
     (case currentUser t of None \<Rightarrow> Inr t | Some user \<Rightarrow> handleVoiceCommand command t)"
| "handler EndWorkout t = handleEndWorkout (repCount_shown t) t"
| "handler ResetWorkout t = Inr (resetWorkout t)"

definition fire :: "event \<Rightarrow> tracker \<Rightarrow> js_error + tracker" where
  "fire e t = (case handler e t of Inl err \<Rightarrow> Inl err | Inr t' \<Rightarrow> Inr (voiceEffect t t'))"

fun session :: "tracker \<Rightarrow> event list \<Rightarrow> js_error + tracker" where
  "session t [] = Inr t"
| "session t (e # es) = (case fire e t of Inl err \<Rightarrow> Inl err | Inr t' \<Rightarrow> session t' es)"

text \<open>The repetitions the log holds for one exercise.\<close>

definition logged :: "string \<Rightarrow> log_entry list \<Rightarrow> nat" where
  "logged k entries = sum_list (map reps (filter (\<lambda>e. exercise e = k) entries))"

text \<open>
  Two poses seen from the side, every keypoint with score 1: standing upright, with
  shoulder, hip, knee and ankle on one vertical line (knee angle 180), and squatting with
  the thigh horizontal (knee angle 90). The arms hang straight down in both.
\<close>

definition seen :: "real \<Rightarrow> real \<Rightarrow> keypoint" where
  "seen x y = \<lparr>kp_x = x, kp_y = y, score = 1\<rparr>"

definition standing_pose :: "keypoint list" where
  "standing_pose =
     [seen 100 50, seen 100 45, seen 100 45, seen 100 50, seen 100 50,
      seen 100 100, seen 100 100, seen 100 150, seen 100 150, seen 100 200, seen 100 200,
      seen 100 200, seen 100 200, seen 100 300, seen 100 300, seen 100 400, seen 100 400]"

definition squat_pose :: "keypoint list" where
  "squat_pose =
     [seen 0 150, seen 0 145, seen 0 145, seen 0 150, seen 0 150,
      seen 0 200, seen 0 200, seen 0 250, seen 0 250, seen 0 300, seen 0 300,
      seen 0 300, seen 0 300, seen 100 300, seen 100 300, seen 100 400, seen 100 400]"

text \<open>
  A session that counts one squat: the model loads, the workout and the counting are
  started, and five frames show the athlete standing, squatting twice, and standing twice.
\<close>

definition squat_rep :: "event list" where
  "squat_rep =
     [ModelLoaded, StartWorkoutSession, StartCounting,
      Frame 1 [standing_pose], Frame 2 [squat_pose], Frame 3 [squat_pose],
      Frame 4 [standing_pose], Frame 5 [standing_pose]]"

section \<open>Phase cycles and runs\<close>

text \<open>
  The phases of each class in the order its \<open>switch\<close> visits them, starting with the
  phase the constructor sets.
\<close>

fun cycle :: "machine \<Rightarrow> string list" where
  "cycle (Squat m) = [''standing'', ''descending'', ''bottom'', ''ascending'']"
| "cycle (BenchPress m) = [''extended'', ''descending'', ''bottom'', ''ascending'']"
| "cycle (Deadlift m) = [''standing'', ''bending'', ''bottom'', ''lifting'']"
| "cycle (PushUp m) = [''up'', ''descending'', ''bottom'', ''ascending'']"
| "cycle (PullUp m) = [''hanging'', ''pulling'', ''top'', ''descending'']"
| "cycle (ShoulderPress m) = [''down'', ''up'']"
| "cycle (LateralRaise m) = [''down'', ''raising'', ''top'', ''lowering'']"
| "cycle (Lunge m) = [''standing'', ''descending'', ''bottom'', ''ascending'']"

text \<open>The number of calls in a run that change the phase, that is, cross a threshold.\<close>

fun changes :: "machine \<Rightarrow> frame list \<Rightarrow> nat" where
  "changes m [] = 0"
| "changes m ((now, a, d) # fs) =
     (if state_of (update now m a d) \<noteq> state_of m then 1 else 0) + changes (update now m a d) fs"

text \<open>The angle or angles the guard at the head of each \<open>update\<close> tests.\<close>

fun driving :: "machine \<Rightarrow> angles \<Rightarrow> jsval list" where
  "driving (Squat m) a = [knee a]"
| "driving (BenchPress m) a = [elbow a]"
| "driving (Deadlift m) a = [hip a]"
| "driving (PushUp m) a = [elbow a]"
| "driving (PullUp m) a = [elbow a]"
| "driving (ShoulderPress m) a = [leftElbow a, rightElbow a]"
| "driving (LateralRaise m) a = [shoulder a]"
| "driving (Lunge m) a = [knee a]"

text \<open>The warning that guard pushes.\<close>

fun missing_signal_warning :: "machine \<Rightarrow> feedback" where
  "missing_signal_warning (Squat m) = \<lparr>msg_type = ''warning'', msg_text = ''Cannot detect legs''\<rparr>"
| "missing_signal_warning (ShoulderPress m) =
     \<lparr>msg_type = ''warning'', msg_text = ''Face camera - ensure arms visible''\<rparr>"
| "missing_signal_warning m = \<lparr>msg_type = ''warning'', msg_text = ''Cannot detect pose''\<rparr>"

text \<open>A call \<open>update({knee: r})\<close>, and one \<open>update({elbow: r})\<close>.\<close>

definition knee_frame :: "real \<Rightarrow> frame" where
  "knee_frame r = (0, no_angles\<lparr>knee := Number r\<rparr>, None)"

definition elbow_frame :: "real \<Rightarrow> frame" where
  "elbow_frame r = (0, no_angles\<lparr>elbow := Number r\<rparr>, None)"

text \<open>
  The transition rules of the specification's table, one test per transition in the order
  of the cycle: the driving angle of the call is a nonzero number on the stated side of the
  stated bound. For shoulder press the driving angle is the average of the two elbow
  angles, or the one that is there when the other is missing.
\<close>

definition below :: "jsval \<Rightarrow> real \<Rightarrow> bool" where
  "below v c = (case v of Number x \<Rightarrow> x \<noteq> 0 \<and> x < c | _ \<Rightarrow> False)"

definition above :: "jsval \<Rightarrow> real \<Rightarrow> bool" where
  "above v c = (case v of Number x \<Rightarrow> x \<noteq> 0 \<and> x > c | _ \<Rightarrow> False)"

definition avgElbow :: "angles \<Rightarrow> jsval" where
  "avgElbow a =
     (if truthy (leftElbow a) \<and> truthy (rightElbow a)
      then (case (leftElbow a, rightElbow a) of
              (Number l, Number r) \<Rightarrow> Number ((l + r) / 2)
            | _ \<Rightarrow> NaN)
      else if truthy (leftElbow a) then leftElbow a
      else if truthy (rightElbow a) then rightElbow a
      else Undefined)"

fun transitions :: "machine \<Rightarrow> (angles \<Rightarrow> bool) list" where
  "transitions (Squat m) =
     [\<lambda>a. below (knee a) 150, \<lambda>a. below (knee a) 110,
      \<lambda>a. above (knee a) (110 + 15), \<lambda>a. above (knee a) 150]"
| "transitions (BenchPress m) =
     [\<lambda>a. below (elbow a) 120, \<lambda>a. below (elbow a) 90,
      \<lambda>a. above (elbow a) (90 + 10), \<lambda>a. above (elbow a) 160]"
| "transitions (Deadlift m) =
     [\<lambda>a. below (hip a) 120, \<lambda>a. below (hip a) 90,
      \<lambda>a. above (hip a) (90 + 10), \<lambda>a. above (hip a) 160]"
| "transitions (PushUp m) =
     [\<lambda>a. below (elbow a) 120, \<lambda>a. below (elbow a) 90,
      \<lambda>a. above (elbow a) (90 + 10), \<lambda>a. above (elbow a) 160]"
| "transitions (PullUp m) =
     [\<lambda>a. below (elbow a) 120, \<lambda>a. below (elbow a) 90,
      \<lambda>a. above (elbow a) (90 + 10), \<lambda>a. above (elbow a) 160]"
| "transitions (ShoulderPress m) =
     [\<lambda>a. above (avgElbow a) 160, \<lambda>a. below (avgElbow a) 100]"
| "transitions (LateralRaise m) =
     [\<lambda>a. above (shoulder a) 60, \<lambda>a. above (shoulder a) 90,
      \<lambda>a. below (shoulder a) (90 - 10), \<lambda>a. below (shoulder a) 30]"
| "transitions (Lunge m) =
     [\<lambda>a. below (knee a) 120, \<lambda>a. below (knee a) 90,
      \<lambda>a. above (knee a) (90 + 10), \<lambda>a. above (knee a) 160]"



text \<open>
  The position of a phase in its cycle, and the invariant of the runs: the phase is one of
  the cycle, and a squat machine that is past the descent has recorded its depth (under the
  constructor's thresholds, where the bottom angle lies below the depth angle).
\<close>

fun pos :: "string \<Rightarrow> string list \<Rightarrow> nat" where
  "pos s [] = 0"
| "pos s (x # xs) = (if s = x then 0 else Suc (pos s xs))"

definition phase_index :: "machine \<Rightarrow> nat" where
  "phase_index m = pos (state_of m) (cycle m)"

fun good :: "machine \<Rightarrow> bool" where
  "good (Squat m) = (thresholds m = thresholds SquatStateMachine \<and>
      state m \<in> set (cycle (Squat m)) \<and>
      (state m = ''bottom'' \<or> state m = ''ascending'' \<longrightarrow> minDepthReached m))"
| "good m = (state_of m \<in> set (cycle m))"

text \<open>
  A machine with the fields that \<open>reset\<close> never writes blanked: \<open>feedbackMessages\<close>,
  and \<open>lastRepTime\<close> where the class has it.
\<close>

fun forget :: "machine \<Rightarrow> machine" where
  "forget (Squat m) = Squat (m\<lparr>feedbackMessages := [], lastRepTime := 0\<rparr>)"
| "forget (BenchPress m) = BenchPress (m\<lparr>feedbackMessages := []\<rparr>)"
| "forget (Deadlift m) = Deadlift (m\<lparr>feedbackMessages := []\<rparr>)"
| "forget (PushUp m) = PushUp (m\<lparr>feedbackMessages := []\<rparr>)"
| "forget (PullUp m) = PullUp (m\<lparr>feedbackMessages := []\<rparr>)"
| "forget (ShoulderPress m) = ShoulderPress (m\<lparr>feedbackMessages := [], lastRepTime := 0\<rparr>)"
| "forget (LateralRaise m) = LateralRaise (m\<lparr>feedbackMessages := []\<rparr>)"
| "forget (Lunge m) = Lunge (m\<lparr>feedbackMessages := []\<rparr>)"

section \<open>Basic facts\<close>

lemmas update_defs =
  SquatStateMachine_update_def BenchPressStateMachine_update_def DeadliftStateMachine_update_def
  PushUpStateMachine_update_def PullUpStateMachine_update_def ShoulderPressStateMachine_update_def
  LateralRaiseStateMachine_update_def LungeStateMachine_update_def

lemmas new_defs =
  SquatStateMachine_def BenchPressStateMachine_def DeadliftStateMachine_def
  PushUpStateMachine_def PullUpStateMachine_def ShoulderPressStateMachine_def
  LateralRaiseStateMachine_def LungeStateMachine_def

lemmas reset_defs =
  SquatStateMachine_reset_def BenchPressStateMachine_reset_def DeadliftStateMachine_reset_def
  PushUpStateMachine_reset_def PullUpStateMachine_reset_def ShoulderPressStateMachine_reset_def
  LateralRaiseStateMachine_reset_def LungeStateMachine_reset_def

lemmas eval_defs = update_defs new_defs js_less_def js_greater_def no_angles_def
  knee_frame_def elbow_frame_def

lemma run_append: "run m (fs @ gs) = run (run m fs) gs"
  by (induction m fs rule: run.induct) simp_all

lemma cycle_update [simp]: "cycle (update now m a d) = cycle m"
  by (cases m) simp_all

lemma cycle_run [simp]: "cycle (run m fs) = cycle m"
  by (induction m fs rule: run.induct) simp_all

lemma cycle_length_pos: "0 < length (cycle m)"
  by (cases m) simp_all

lemma pos_less: "s \<in> set xs \<Longrightarrow> pos s xs < length xs"
  by (induction xs) auto

lemma pos_zero: "s \<in> set xs \<Longrightarrow> pos s xs = 0 \<Longrightarrow> s = hd xs"
  by (cases xs) (auto split: if_splits)

lemma good_in_cycle: "good m \<Longrightarrow> state_of m \<in> set (cycle m)"
  by (cases m) simp_all

lemma phase_index_less: "good m \<Longrightarrow> phase_index m < length (cycle m)"
  unfolding phase_index_def by (rule pos_less) (rule good_in_cycle)

lemma new_machine_good:
  "new_machine k = Some m0 \<Longrightarrow> good m0 \<and> state_of m0 = hd (cycle m0) \<and> repCount_of m0 = 0"
  by (auto simp: new_machine_def new_defs split: if_splits)

subsection \<open>One call moves at most one phase along the cycle\<close>

text \<open>
  A call either leaves phase and count alone or moves the phase to its successor in the
  cycle, and the count goes up exactly on the move that closes the cycle. For the squat
  machine this needs the invariant: the closing move counts only with the depth flag set.
\<close>

lemma good_step:
  assumes "good m"
  shows "good (update now m a d) \<and>
     (state_of (update now m a d) = state_of m \<and> repCount_of (update now m a d) = repCount_of m \<or>
      state_of (update now m a d) \<noteq> state_of m \<and>
      phase_index (update now m a d) = (phase_index m + 1) mod length (cycle m) \<and>
      repCount_of (update now m a d) =
        repCount_of m + (if phase_index m + 1 = length (cycle m) then 1 else 0))"
proof (cases m)
  case (Squat s)
  with assms show ?thesis
    by (auto simp: SquatStateMachine_update_def SquatStateMachine_def phase_index_def Let_def
          js_less_def js_greater_def split: option.splits)
next
  case (BenchPress s)
  with assms show ?thesis
    by (auto simp: BenchPressStateMachine_update_def phase_index_def Let_def)
next
  case (Deadlift s)
  with assms show ?thesis
    by (auto simp: DeadliftStateMachine_update_def phase_index_def Let_def)
next
  case (PushUp s)
  with assms show ?thesis
    by (auto simp: PushUpStateMachine_update_def phase_index_def Let_def)
next
  case (PullUp s)
  with assms show ?thesis
    by (auto simp: PullUpStateMachine_update_def phase_index_def Let_def)
next
  case (ShoulderPress s)
  with assms show ?thesis
    by (auto simp: ShoulderPressStateMachine_update_def phase_index_def Let_def)
next
  case (LateralRaise s)
  with assms show ?thesis
    by (auto simp: LateralRaiseStateMachine_update_def phase_index_def Let_def)
next
  case (Lunge s)
  with assms show ?thesis
    by (auto simp: LungeStateMachine_update_def phase_index_def Let_def)
qed

lemma good_run: "good m \<Longrightarrow> good (run m fs)"
  by (induction m fs rule: run.induct) (simp_all add: good_step)

lemma run_counts:
  assumes "good m"
  shows "phase_index (run m fs) = (phase_index m + changes m fs) mod length (cycle m) \<and>
         repCount_of (run m fs) = repCount_of m + (phase_index m + changes m fs) div length (cycle m)"
  using assms
proof (induction m fs rule: run.induct)
  case (1 m)
  then show ?case
    using phase_index_less [of m] by simp
next
  case (2 m now a d fs)
  let ?m' = "update now m a d"
  let ?n = "length (cycle m)"
  from "2.prems" have step: "good ?m'" and
    alt: "state_of ?m' = state_of m \<and> repCount_of ?m' = repCount_of m \<or>
      state_of ?m' \<noteq> state_of m \<and> phase_index ?m' = (phase_index m + 1) mod ?n \<and>
      repCount_of ?m' = repCount_of m + (if phase_index m + 1 = ?n then 1 else 0)"
    using good_step [of m now a d] by blast+
  from "2.IH" [OF step] have
    ih1: "phase_index (run ?m' fs) = (phase_index ?m' + changes ?m' fs) mod ?n" and
    ih2: "repCount_of (run ?m' fs) = repCount_of ?m' + (phase_index ?m' + changes ?m' fs) div ?n"
    by simp_all
  have lt: "phase_index m < ?n" using "2.prems" by (rule phase_index_less)
  from alt show ?case
  proof
    assume same: "state_of ?m' = state_of m \<and> repCount_of ?m' = repCount_of m"
    then have "phase_index ?m' = phase_index m" by (simp add: phase_index_def)
    with same ih1 ih2 show ?thesis by simp
  next
    assume chg: "state_of ?m' \<noteq> state_of m \<and> phase_index ?m' = (phase_index m + 1) mod ?n \<and>
      repCount_of ?m' = repCount_of m + (if phase_index m + 1 = ?n then 1 else 0)"
    show ?thesis
    proof (cases "phase_index m + 1 = ?n")
      case True
      let ?c = "changes ?m' fs"
      from True chg have z: "phase_index ?m' = 0" by simp
      have tot: "phase_index m + changes m ((now, a, d) # fs) = ?n + ?c"
        using True chg by simp
      have "(?n + ?c) mod ?n = ?c mod ?n" by simp
      moreover have "(?n + ?c) div ?n = ?c div ?n + 1"
        using cycle_length_pos [of m] by simp
      ultimately show ?thesis
        using chg True ih1 ih2 z unfolding tot run.simps by simp
    next
      case False
      with lt have "phase_index ?m' = phase_index m + 1" using chg by simp
      with chg False ih1 ih2 show ?thesis by simp
    qed
  qed
qed

section \<open>A full cycle counts one repetition\<close>

text \<open>
  A sequence through all thresholds for each machine: the count is 1 and the phase the
  initial one afterwards, with the entry \<open>Good rep!\<close> left by the closing call.
\<close>

lemma example_cycles:
  "run (Squat SquatStateMachine) (map knee_frame [170, 140, 100, 130, 170]) =
     Squat (SquatStateMachine\<lparr>repCount := 1,
       feedbackMessages := [\<lparr>msg_type = ''success'', msg_text = ''Good rep!''\<rparr>]\<rparr>)"
  "run (BenchPress BenchPressStateMachine) (map elbow_frame [170, 110, 80, 110, 170]) =
     BenchPress (BenchPressStateMachine\<lparr>repCount := 1,
       feedbackMessages := [\<lparr>msg_type = ''success'', msg_text = ''Good rep!''\<rparr>]\<rparr>)"
  "run (Deadlift DeadliftStateMachine)
       (map (\<lambda>r. (0, no_angles\<lparr>hip := Number r\<rparr>, None)) [170, 110, 80, 110, 170]) =
     Deadlift (DeadliftStateMachine\<lparr>repCount := 1,
       feedbackMessages := [\<lparr>msg_type = ''success'', msg_text = ''Good rep!''\<rparr>]\<rparr>)"
  "run (PushUp PushUpStateMachine) (map elbow_frame [170, 110, 80, 110, 170]) =
     PushUp (PushUpStateMachine\<lparr>repCount := 1,
       feedbackMessages := [\<lparr>msg_type = ''success'', msg_text = ''Good rep!''\<rparr>]\<rparr>)"
  "run (PullUp PullUpStateMachine) (map elbow_frame [170, 110, 80, 110, 170]) =
     PullUp (PullUpStateMachine\<lparr>repCount := 1,
       feedbackMessages := [\<lparr>msg_type = ''success'', msg_text = ''Good rep!''\<rparr>]\<rparr>)"
  "run (ShoulderPress ShoulderPressStateMachine)
       (map (\<lambda>r. (0, no_angles\<lparr>leftElbow := Number r, rightElbow := Number r\<rparr>, None))
          [90, 170, 90]) =
     ShoulderPress (ShoulderPressStateMachine\<lparr>repCount := 1,
       feedbackMessages := [\<lparr>msg_type = ''success'', msg_text = ''Good rep!''\<rparr>]\<rparr>)"
  "run (LateralRaise LateralRaiseStateMachine)
       (map (\<lambda>r. (0, no_angles\<lparr>shoulder := Number r\<rparr>, None)) [20, 70, 100, 70, 20]) =
     LateralRaise (LateralRaiseStateMachine\<lparr>repCount := 1,
       feedbackMessages := [\<lparr>msg_type = ''success'', msg_text = ''Good rep!''\<rparr>]\<rparr>)"
  "run (Lunge LungeStateMachine) (map knee_frame [170, 110, 80, 110, 170]) =
     Lunge (LungeStateMachine\<lparr>repCount := 1,
       feedbackMessages := [\<lparr>msg_type = ''success'', msg_text = ''Good rep!''\<rparr>]\<rparr>)"
  by (simp_all add: eval_defs js_add_def js_sub_def js_half_def Math_abs_def js_or_def
        wristsAboveShoulder_def no_distances_def)

lemma squat_spec_sequence_outcome:
  "run (Squat SquatStateMachine) (map knee_frame [170, 140, 100, 115, 170]) =
     Squat (SquatStateMachine\<lparr>state := ''ascending'', minDepthReached := True\<rparr>)"
  by (simp add: eval_defs)

text \<open>
  The lateral raise sequence 70, 100, 70, 0 meets every rule of the table, the last one with
  the arm back at the side, but 0 is falsy: the closing call takes the missing-signal exit.
\<close>

lemma lateral_raise_zero:
  "run (LateralRaise LateralRaiseStateMachine)
       (map (\<lambda>r. (0, no_angles\<lparr>shoulder := Number r\<rparr>, None)) [70, 100, 70, 0]) =
     LateralRaise (LateralRaiseStateMachine\<lparr>state := ''lowering'',
       feedbackMessages := [\<lparr>msg_type = ''warning'', msg_text = ''Cannot detect pose''\<rparr>]\<rparr>)"
  by (simp add: eval_defs)


subsection \<open>Sequences that meet the transition rules\<close>



lemma transitions_update [simp]: "transitions (update now m a d) = transitions m"
  by (cases m) simp_all

lemma transitions_run [simp]: "transitions (run m fs) = transitions m"
  by (induction m fs rule: run.induct) simp_all











section \<open>Missing signal\<close>

lemma update_falsy:
  assumes "\<forall>v \<in> set (driving m a). \<not> truthy v"
  shows "state_of (update now m a d) = state_of m \<and>
         repCount_of (update now m a d) = repCount_of m \<and>
         feedbackMessages_of (update now m a d) = [missing_signal_warning m]"
  using assms by (cases m) (simp_all add: update_defs)

lemma update_falsy_same:
  assumes "\<forall>v \<in> set (driving m a). \<not> truthy v" and "\<forall>v \<in> set (driving m a'). \<not> truthy v"
  shows "update now m a d = update now m a' d"
  using assms by (cases m) (simp_all add: update_defs)

text \<open>
  C2. For each of the eight machines, in every state: a call of \<open>update\<close> whose driving
  angle is \<open>null\<close> (or not set at all), for shoulder press both elbow angles, leaves phase
  and \<open>repCount\<close> as they were, and \<open>feedbackMessages\<close> afterwards is exactly the one
  warning of the missing signal, whatever it held before: \<open>Cannot detect legs\<close> for squat,
  \<open>Face camera - ensure arms visible\<close> for shoulder press, \<open>Cannot detect pose\<close> for
  the other six.
\<close>

theorem update_missing_signal:
  assumes "\<forall>v \<in> set (driving m a). v = Null \<or> v = Undefined"
  shows "state_of (update now m a d) = state_of m \<and>
         repCount_of (update now m a d) = repCount_of m \<and>
         feedbackMessages_of (update now m a d) = [missing_signal_warning m]"
proof (rule update_falsy)
  from assms show "\<forall>v \<in> set (driving m a). \<not> truthy v" by auto
qed

theorem update_missing_signal_witness:
  "driving (run (BenchPress BenchPressStateMachine) (map elbow_frame [110, 80]))
       (no_angles\<lparr>elbow := Null\<rparr>) = [Null] \<and>
   state_of (run (BenchPress BenchPressStateMachine) (map elbow_frame [110, 80])) = ''bottom'' \<and>
   state_of (update 0 (run (BenchPress BenchPressStateMachine) (map elbow_frame [110, 80]))
       (no_angles\<lparr>elbow := Null\<rparr>) None) = ''bottom'' \<and>
   feedbackMessages_of (update 0 (run (BenchPress BenchPressStateMachine) (map elbow_frame [110, 80]))
       (no_angles\<lparr>elbow := Null\<rparr>) None) =
     [\<lparr>msg_type = ''warning'', msg_text = ''Cannot detect pose''\<rparr>]"
proof -
  let ?m = "run (BenchPress BenchPressStateMachine) (map elbow_frame [110, 80])"
  let ?a = "no_angles\<lparr>elbow := Null\<rparr>"
  have m: "?m = BenchPress (BenchPressStateMachine\<lparr>state := ''bottom''\<rparr>)"
    by (simp add: eval_defs)
  have h: "\<forall>v \<in> set (driving ?m ?a). v = Null \<or> v = Undefined"
    using m by simp
  have dr: "driving ?m ?a = [Null]"
    using m by simp
  from update_missing_signal [OF h, of 0 None] dr m show ?thesis
    by simp
qed

text \<open>
  C10. A driving angle that is present and equal to 0 is falsy like \<open>null\<close>, so the guard
  treats it as missing: for every machine and state, a call whose driving angle is 0 (for
  shoulder press both elbow angles) makes no transition, leaves \<open>repCount\<close> alone, leaves
  exactly the missing-signal warning, and returns the same machine as the call with the
  angle \<open>null\<close>.
\<close>

theorem update_zero_angle:
  assumes "\<forall>v \<in> set (driving m a). v = Number 0"
  shows "state_of (update now m a d) = state_of m \<and>
         repCount_of (update now m a d) = repCount_of m \<and>
         feedbackMessages_of (update now m a d) = [missing_signal_warning m] \<and>
         (\<forall>a'. (\<forall>v \<in> set (driving m a'). v = Null) \<longrightarrow> update now m a d = update now m a' d)"
proof -
  from assms have f: "\<forall>v \<in> set (driving m a). \<not> truthy v" by auto
  have "update now m a d = update now m a' d" if "\<forall>v \<in> set (driving m a'). v = Null" for a'
  proof (rule update_falsy_same [OF f])
    from that show "\<forall>v \<in> set (driving m a'). \<not> truthy v" by auto
  qed
  with update_falsy [OF f] show ?thesis by blast
qed

theorem update_zero_angle_witness:
  "driving (LateralRaise LateralRaiseStateMachine) (no_angles\<lparr>shoulder := Number 0\<rparr>) =
     [Number 0] \<and>
   driving (LateralRaise LateralRaiseStateMachine) (no_angles\<lparr>shoulder := Null\<rparr>) = [Null] \<and>
   feedbackMessages_of (update 0 (LateralRaise LateralRaiseStateMachine)
       (no_angles\<lparr>shoulder := Number 0\<rparr>) None) =
     [\<lparr>msg_type = ''warning'', msg_text = ''Cannot detect pose''\<rparr>] \<and>
   update 0 (LateralRaise LateralRaiseStateMachine) (no_angles\<lparr>shoulder := Number 0\<rparr>) None =
   update 0 (LateralRaise LateralRaiseStateMachine) (no_angles\<lparr>shoulder := Null\<rparr>) None"
proof -
  let ?m = "LateralRaise LateralRaiseStateMachine"
  have h: "\<forall>v \<in> set (driving ?m (no_angles\<lparr>shoulder := Number 0\<rparr>)). v = Number 0"
    by simp
  have h': "\<forall>v \<in> set (driving ?m (no_angles\<lparr>shoulder := Null\<rparr>)). v = Null"
    by simp
  from update_zero_angle [OF h, of 0 None] h' show ?thesis
    by simp
qed

section \<open>The count moves by at most one\<close>

text \<open>
  C3. For every machine, every state (reachable or not) and every call of \<open>update\<close>,
  whatever the angles and the second argument: \<open>repCount\<close> after the call is
  \<open>repCount\<close> before it, or that plus 1.
\<close>

theorem update_repCount_step:
  "repCount_of (update now m a d) = repCount_of m \<or>
   repCount_of (update now m a d) = repCount_of m + 1"
  by (cases m) (simp_all add: update_defs Let_def)

section \<open>The squat depth flag\<close>

lemma run_snoc: "run m (fs @ [(now, a, d)]) = update now (run m fs) a d"
  by (simp add: run_append)

lemma good_no_too_shallow:
  "good m \<Longrightarrow> \<lparr>msg_type = ''error'', msg_text = ''Too shallow''\<rparr>
      \<notin> set (feedbackMessages_of (update now m a d))"
  by (cases m) (auto simp: update_defs Let_def)

text \<open>
  C4. Every squat machine \<open>s\<close> that a sequence of \<open>update\<close> calls reaches from the
  constructed one has \<open>minDepthReached\<close> set whenever its phase is \<open>bottom\<close> or
  \<open>ascending\<close>. So no call ever leaves the \<open>Too shallow\<close> entry in
  \<open>feedbackMessages\<close>, and every call that brings the phase back to \<open>standing\<close>
  increments \<open>repCount\<close>.
\<close>

theorem squat_min_depth_invariant:
  assumes "run (Squat SquatStateMachine) fs = Squat s"
  shows "(state s = ''bottom'' \<or> state s = ''ascending'' \<longrightarrow> minDepthReached s) \<and>
         \<lparr>msg_type = ''error'', msg_text = ''Too shallow''\<rparr> \<notin> set (feedbackMessages s) \<and>
         (\<forall>now a d. state s \<noteq> ''standing'' \<and>
              state (SquatStateMachine_update now s a d) = ''standing'' \<longrightarrow>
            repCount (SquatStateMachine_update now s a d) = repCount s + 1)"
proof -
  have g0: "good (Squat SquatStateMachine)"
    by (simp add: SquatStateMachine_def)
  then have g: "good (Squat s)"
    using good_run [of "Squat SquatStateMachine" fs] assms by simp
  then have flag: "state s = ''bottom'' \<or> state s = ''ascending'' \<longrightarrow> minDepthReached s"
    by simp
  have quiet: "\<lparr>msg_type = ''error'', msg_text = ''Too shallow''\<rparr> \<notin> set (feedbackMessages s)"
  proof (cases fs rule: rev_cases)
    case Nil
    with assms have "s = SquatStateMachine" by simp
    then show ?thesis by (simp add: SquatStateMachine_def)
  next
    case (snoc gs f)
    obtain now a d where f: "f = (now, a, d)" by (cases f)
    have "good (run (Squat SquatStateMachine) gs)" using g0 by (rule good_run)
    from good_no_too_shallow [OF this, of now a d] assms snoc f show ?thesis
      by (simp add: run_snoc)
  qed
  have counted: "repCount (SquatStateMachine_update now s a d) = repCount s + 1"
    if "state s \<noteq> ''standing''" "state (SquatStateMachine_update now s a d) = ''standing''"
    for now a d
    using g that by (auto simp: SquatStateMachine_update_def Let_def split: if_splits)
  from flag quiet counted show ?thesis by blast
qed

theorem squat_min_depth_invariant_witness:
  "run (Squat SquatStateMachine) (map knee_frame [140, 100, 130]) =
     Squat (SquatStateMachine\<lparr>state := ''ascending'', minDepthReached := True\<rparr>) \<and>
   minDepthReached (SquatStateMachine\<lparr>state := ''ascending'', minDepthReached := True\<rparr>) \<and>
   state (SquatStateMachine_update 0 (SquatStateMachine\<lparr>state := ''ascending'', minDepthReached := True\<rparr>)
      (no_angles\<lparr>knee := Number 170\<rparr>) None) = ''standing'' \<and>
   repCount (SquatStateMachine_update 0 (SquatStateMachine\<lparr>state := ''ascending'', minDepthReached := True\<rparr>)
      (no_angles\<lparr>knee := Number 170\<rparr>) None) = 1"
proof -
  let ?s = "SquatStateMachine\<lparr>state := ''ascending'', minDepthReached := True\<rparr>"
  have h: "run (Squat SquatStateMachine) (map knee_frame [140, 100, 130]) = Squat ?s"
    by (simp add: eval_defs)
  have st: "state ?s = ''ascending''" by simp
  have ret: "state (SquatStateMachine_update 0 ?s (no_angles\<lparr>knee := Number 170\<rparr>) None) = ''standing''"
    by (simp add: eval_defs)
  from squat_min_depth_invariant [OF h] h st ret show ?thesis
    by (simp add: SquatStateMachine_def)
qed

text \<open>
  C5. The sequence knee 170, 140, 125, 170 from the constructed squat machine does not end
  in \<open>standing\<close> with a \<open>Too shallow\<close> entry.
\<close>

theorem squat_shallow_sequence_counterexample:
  "\<not> (state_of (run (Squat SquatStateMachine) (map knee_frame [170, 140, 125, 170])) = ''standing'' \<and>
      repCount_of (run (Squat SquatStateMachine) (map knee_frame [170, 140, 125, 170])) = 0 \<and>
      \<lparr>msg_type = ''error'', msg_text = ''Too shallow''\<rparr>
        \<in> set (feedbackMessages_of (run (Squat SquatStateMachine) (map knee_frame [170, 140, 125, 170]))))"
  by (simp add: eval_defs)

text \<open>
  C5, as the code has it. After knee 170, 140, 125, 170 the squat machine is in
  \<open>descending\<close>: 125 is below the depth angle 130, which sets \<open>minDepthReached\<close>, and
  not below the bottom angle 110, and no transition leaves \<open>descending\<close> upwards. No
  cycle completes, \<open>repCount\<close> is still 0 and \<open>feedbackMessages\<close> is empty after the
  last call.
\<close>

theorem squat_shallow_sequence_stays_descending:
  "run (Squat SquatStateMachine) (map knee_frame [170, 140, 125, 170]) =
     Squat (SquatStateMachine\<lparr>state := ''descending'', minDepthReached := True\<rparr>)"
  by (simp add: eval_defs)

section \<open>Reset\<close>

lemma forget_reset_update: "forget (reset (update now m a d)) = forget (reset m)"
  by (cases m) (simp_all add: update_defs reset_defs Let_def)

lemma forget_reset_run: "forget (reset (run m fs)) = forget (reset m)"
  by (induction m fs rule: run.induct) (simp_all add: forget_reset_update)

lemma feedback_reset: "feedbackMessages_of (reset m) = feedbackMessages_of m"
  by (cases m) (simp_all add: reset_defs)

lemma lastRepTime_reset: "lastRepTime_of (reset m) = lastRepTime_of m"
  by (cases m) (simp_all add: reset_defs)

lemma reset_fresh: "new_machine k = Some m0 \<Longrightarrow> forget (reset m0) = m0"
  by (auto simp: new_machine_def new_defs reset_defs split: if_splits)

text \<open>
  C8. \<open>reset\<close> after a sequence of calls does not give back the constructed machine:
  it leaves \<open>feedbackMessages\<close> as the last \<open>update\<close> set it. Here one call without a
  knee angle leaves the warning, and the warning survives \<open>reset\<close>.
\<close>

theorem reset_not_identical_counterexample:
  "reset (run (Squat SquatStateMachine) [(0, no_angles, None)]) \<noteq> Squat SquatStateMachine"
  by (simp add: eval_defs reset_defs)

text \<open>
  C8, as the code has it. For every kind and every sequence of calls from the constructed
  machine, \<open>reset\<close> afterwards gives the kind's initial phase, \<open>repCount\<close> 0 and, for
  squat, \<open>minDepthReached\<close> cleared; the result is the constructed machine in every field
  but \<open>feedbackMessages\<close> (and \<open>lastRepTime\<close> for squat and shoulder press), and
  these two \<open>reset\<close> leaves as the last \<open>update\<close> set them: after a squat counted at
  clock 1000, \<open>lastRepTime\<close> is still 1000 after \<open>reset\<close>.
\<close>

theorem reset_restores_fresh_machine:
  assumes "new_machine k = Some m0"
  shows "state_of (reset (run m0 fs)) = state_of m0 \<and>
         repCount_of (reset (run m0 fs)) = 0 \<and>
         (\<forall>s. reset (run m0 fs) = Squat s \<longrightarrow> \<not> minDepthReached s) \<and>
         forget (reset (run m0 fs)) = m0 \<and>
         feedbackMessages_of (reset (run m0 fs)) = feedbackMessages_of (run m0 fs) \<and>
         lastRepTime_of (reset (run m0 fs)) = lastRepTime_of (run m0 fs)"
proof -
  have eq: "forget (reset (run m0 fs)) = m0"
    using assms by (simp add: forget_reset_run reset_fresh)
  have st: "state_of (forget m) = state_of m" and rc: "repCount_of (forget m) = repCount_of m" for m
    by (cases m; simp)+
  have fl: "\<not> minDepthReached s" if "reset m = Squat s" for m s
    using that by (cases m) (auto simp: reset_defs)
  from new_machine_good [OF assms] have "repCount_of m0 = 0" by simp
  with eq st [of "reset (run m0 fs)"] rc [of "reset (run m0 fs)"] fl feedback_reset
    lastRepTime_reset
  show ?thesis by auto
qed

theorem reset_restores_fresh_machine_witness:
  "new_machine ''squat'' = Some (Squat SquatStateMachine) \<and>
   run (Squat SquatStateMachine)
     (map (\<lambda>r. (1000, no_angles\<lparr>knee := Number r\<rparr>, None)) [140, 100, 130, 170]) =
     Squat (SquatStateMachine\<lparr>repCount := 1, lastRepTime := 1000,
       feedbackMessages := [\<lparr>msg_type = ''success'', msg_text = ''Good rep!''\<rparr>]\<rparr>) \<and>
   reset (run (Squat SquatStateMachine)
     (map (\<lambda>r. (1000, no_angles\<lparr>knee := Number r\<rparr>, None)) [140, 100, 130, 170])) =
     Squat (SquatStateMachine\<lparr>lastRepTime := 1000,
       feedbackMessages := [\<lparr>msg_type = ''success'', msg_text = ''Good rep!''\<rparr>]\<rparr>) \<and>
   lastRepTime_of (reset (run (Squat SquatStateMachine)
     (map (\<lambda>r. (1000, no_angles\<lparr>knee := Number r\<rparr>, None)) [140, 100, 130, 170]))) = Some 1000 \<and>
   state_of (reset (run (Squat SquatStateMachine)
     (map (\<lambda>r. (1000, no_angles\<lparr>knee := Number r\<rparr>, None)) [140, 100, 130, 170]))) = ''standing'' \<and>
   repCount_of (reset (run (Squat SquatStateMachine)
     (map (\<lambda>r. (1000, no_angles\<lparr>knee := Number r\<rparr>, None)) [140, 100, 130, 170]))) = 0"
proof -
  let ?fs = "map (\<lambda>r. (1000, no_angles\<lparr>knee := Number r\<rparr>, None)) [140, 100, 130, 170]"
  have h: "new_machine ''squat'' = Some (Squat SquatStateMachine)"
    by (simp add: new_machine_def)
  have r: "run (Squat SquatStateMachine) ?fs =
     Squat (SquatStateMachine\<lparr>repCount := 1, lastRepTime := 1000,
       feedbackMessages := [\<lparr>msg_type = ''success'', msg_text = ''Good rep!''\<rparr>]\<rparr>)"
    by (simp add: eval_defs)
  from reset_restores_fresh_machine [OF h, of ?fs] h r show ?thesis
    by (simp add: SquatStateMachine_def reset_defs)
qed

section \<open>Hysteresis of the bench press\<close>

lemma bench_bottom_step:
  assumes "state b = ''bottom''" and "thresholds b = thresholds BenchPressStateMachine"
    and "elbow a = Number 95 \<or> elbow a = Number 85"
  shows "state (BenchPressStateMachine_update b a d) = ''bottom'' \<and>
         thresholds (BenchPressStateMachine_update b a d) = thresholds BenchPressStateMachine \<and>
         repCount (BenchPressStateMachine_update b a d) = repCount b"
  using assms by (auto simp: BenchPressStateMachine_update_def BenchPressStateMachine_def js_greater_def)

lemma bench_bottom_run:
  assumes "state b = ''bottom''" and "thresholds b = thresholds BenchPressStateMachine"
    and "\<forall>(now, a, d) \<in> set fs. elbow a = Number 95 \<or> elbow a = Number 85"
  shows "state_of (run (BenchPress b) fs) = ''bottom'' \<and> repCount_of (run (BenchPress b) fs) = repCount b"
  using assms
proof (induction fs arbitrary: b)
  case Nil
  then show ?case by simp
next
  case (Cons f fs)
  obtain now a d where f: "f = (now, a, d)" by (cases f)
  with Cons.prems have e: "elbow a = Number 95 \<or> elbow a = Number 85" by simp
  from bench_bottom_step [OF Cons.prems(1,2) e, of d] Cons.prems(3)
  have "state_of (run (BenchPress (BenchPressStateMachine_update b a d)) fs) = ''bottom'' \<and>
        repCount_of (run (BenchPress (BenchPressStateMachine_update b a d)) fs) =
          repCount (BenchPressStateMachine_update b a d)"
    by (intro Cons.IH) simp_all
  with bench_bottom_step [OF Cons.prems(1,2) e, of d] f show ?case by simp
qed

text \<open>
  C9. A bench press machine in phase \<open>bottom\<close> (with the constructor's thresholds) that
  receives calls whose elbow angle is 95 or 85 each time, in any order and so also
  alternating, is in \<open>bottom\<close> with its \<open>repCount\<close> unchanged after every call of the
  sequence: 95 does not exceed 90 + 10.
\<close>

theorem bench_hysteresis:
  assumes "state b = ''bottom''" and "thresholds b = thresholds BenchPressStateMachine"
    and "\<forall>(now, a, d) \<in> set fs. elbow a = Number 95 \<or> elbow a = Number 85"
  shows "state_of (run (BenchPress b) (take n fs)) = ''bottom'' \<and>
         repCount_of (run (BenchPress b) (take n fs)) = repCount b"
proof (rule bench_bottom_run [OF assms(1,2)])
  from assms(3) show "\<forall>(now, a, d) \<in> set (take n fs). elbow a = Number 95 \<or> elbow a = Number 85"
    by (meson in_set_takeD)
qed

theorem bench_hysteresis_witness:
  "run (BenchPress BenchPressStateMachine) (map elbow_frame [110, 80]) =
     BenchPress (BenchPressStateMachine\<lparr>state := ''bottom''\<rparr>) \<and>
   map (\<lambda>(now, a, d). elbow a) (map elbow_frame [95, 85, 95, 85]) =
     [Number 95, Number 85, Number 95, Number 85] \<and>
   state_of (run (BenchPress (BenchPressStateMachine\<lparr>state := ''bottom''\<rparr>))
      (take 3 (map elbow_frame [95, 85, 95, 85]))) = ''bottom'' \<and>
   repCount_of (run (BenchPress (BenchPressStateMachine\<lparr>state := ''bottom''\<rparr>))
      (take 3 (map elbow_frame [95, 85, 95, 85]))) = 0"
proof -
  let ?b = "BenchPressStateMachine\<lparr>state := ''bottom''\<rparr>"
  let ?fs = "map elbow_frame [95, 85, 95, 85]"
  have r: "run (BenchPress BenchPressStateMachine) (map elbow_frame [110, 80]) = BenchPress ?b"
    by (simp add: eval_defs)
  have h1: "state ?b = ''bottom''" by simp
  have h2: "thresholds ?b = thresholds BenchPressStateMachine" by simp
  have h3: "\<forall>(now, a, d) \<in> set ?fs. elbow a = Number 95 \<or> elbow a = Number 85"
    by (simp add: elbow_frame_def no_angles_def)
  have es: "map (\<lambda>(now, a, d). elbow a) ?fs = [Number 95, Number 85, Number 95, Number 85]"
    by (simp add: elbow_frame_def no_angles_def)
  from bench_hysteresis [OF h1 h2 h3, of 3] r es show ?thesis
    by (simp add: BenchPressStateMachine_def)
qed

section \<open>Angles from the pose\<close>

lemmas pose_defs = standing_pose_def squat_pose_def seen_def

lemmas geo_defs = exerciseAngles_def getPoint_def or_else_def calculateAngle_def
  calculateVerticalAngle_def calculateHorizontalDistance_def Math_atan2_def

lemmas tracker_defs = WorkoutTracker_def initializeStateMachines_def speakFeedback_def
  updateExerciseState_def detect_def handleExerciseChange_def handleStartCounting_def
  handleStopCounting_def handleVoiceCommand_def handleEndWorkout_def fire_def voiceEffect_def
  EXERCISES_name_def new_machine_def toLowerCase_def

lemma angles_standing:
  "exerciseAngles ''squat'' standing_pose =
     (no_angles\<lparr>knee := Number 180, hip := Number 180, torsoLean := Number 0\<rparr>,
      no_distances\<lparr>kneeToe := Number 0, legLength := Number 200\<rparr>)"
  by (simp add: geo_defs pose_defs)

lemma angles_squat:
  "exerciseAngles ''squat'' squat_pose =
     (no_angles\<lparr>knee := Number 90, hip := Number 90, torsoLean := Number 0\<rparr>,
      no_distances\<lparr>kneeToe := Number 0, legLength := Number 100\<rparr>)"
  by (simp add: geo_defs pose_defs)

lemmas session_defs = tracker_defs angles_standing angles_squat eval_defs

text \<open>
  Where the keypoints are read by number, the right side stands in for a left side below
  the confidence threshold: here for the squat.
\<close>

lemma squat_right_side_fallback:
  assumes "length keypoints = 17"
    and "\<forall>i \<in> {6, 12, 14, 16}. score (keypoints ! i) \<ge> 0.3"
    and "\<forall>i \<in> {5, 11, 13, 15}. score (keypoints ! i) < 0.3"
  shows "knee (fst (exerciseAngles ''squat'' keypoints)) =
     calculateAngle (getPoint keypoints (Idx 12)) (getPoint keypoints (Idx 14))
       (getPoint keypoints (Idx 16)) \<and>
     (\<exists>r. knee (fst (exerciseAngles ''squat'' keypoints)) = Number r)"
  using assms by (simp add: exerciseAngles_def getPoint_def or_else_def calculateAngle_def
      no_angles_def Let_def)

text \<open>
  The bench press, push-up and deadlift cases read the keypoints by name; the array has no
  such properties, so every point is \<open>null\<close> and no angle is set, whatever the pose.
\<close>

lemma named_lookup_fails:
  "exerciseAngles ''bench'' keypoints = (no_angles, no_distances)"
  "exerciseAngles ''pushup'' keypoints = (no_angles, no_distances)"
  "exerciseAngles ''deadlift'' keypoints = (no_angles, no_distances)"
  by (simp_all add: exerciseAngles_def getPoint_def or_else_def)

text \<open>
  C6. With bench press (or push-up, or deadlift) active and counting on, a frame computes no
  driving angle from any pose, also not from one whose keypoints all have score 1: the
  angles stay unset and the machine only reports \<open>Cannot detect pose\<close>. The left-first
  selection with the right-side fallback yields the driving angle for squat, pull-up,
  lateral raise and lunge only (and both elbows for shoulder press).
\<close>

theorem bench_pushup_deadlift_angles_never_set:
  "exerciseAngles ''bench'' pose = (no_angles, no_distances) \<and>
   exerciseAngles ''pushup'' pose = (no_angles, no_distances) \<and>
   exerciseAngles ''deadlift'' pose = (no_angles, no_distances) \<and>
   (case session (WorkoutTracker False user)
           [ModelLoaded, StartWorkoutSession, ExerciseChange ''bench'', StartCounting,
            Frame now [pose]] of
      Inl err \<Rightarrow> False
    | Inr t \<Rightarrow>
        isCounting t \<and> currentExercise t = ''bench'' \<and>
        map_option state_of (stateMachines t ''bench'') = Some ''extended'' \<and>
        map_option feedbackMessages_of (stateMachines t ''bench'') =
          Some [\<lparr>msg_type = ''warning'', msg_text = ''Cannot detect pose''\<rparr>])"
  by (simp add: named_lookup_fails tracker_defs eval_defs no_distances_def)

section \<open>Switching the exercise and the session log\<close>

lemma logged_add_reps_same:
  "find (\<lambda>e. exercise e = k) es \<noteq> None \<Longrightarrow> logged k (add_reps k n es) = logged k es + n"
  by (induction es) (auto simp: logged_def)

lemma logged_add_reps_other:
  "k' \<noteq> k \<Longrightarrow> logged k' (add_reps k n es) = logged k' es"
  by (induction es) (auto simp: logged_def)

lemma find_None_logged: "find (\<lambda>e. exercise e = k) es = None \<Longrightarrow> logged k es = 0"
  by (induction es) (auto simp: logged_def split: if_splits)

lemma speakFeedback_fields:
  "isCounting (speakFeedback msg t) = isCounting t"
  "workoutLog (speakFeedback msg t) = workoutLog t"
  "currentExercise (speakFeedback msg t) = currentExercise t"
  "stateMachines (speakFeedback msg t) = stateMachines t"
  "stateMachineRef (speakFeedback msg t) = stateMachineRef t"
  "repCount_shown (speakFeedback msg t) = repCount_shown t"
  by (simp_all add: speakFeedback_def)

text \<open>
  \<open>handleExerciseChange\<close> never touches the log or the machines. While counting is
  disabled it makes the new exercise and its machine the active ones and sets the displayed
  count to 0. While counting is enabled it changes nothing and hands the message
  \<open>Please stop counting before changing exercise.\<close> to \<open>speakFeedback\<close>, which speaks it
  when speech is enabled.
\<close>

lemma handleExerciseChange_fields:
  "workoutLog (handleExerciseChange ex t) = workoutLog t"
  "stateMachines (handleExerciseChange ex t) = stateMachines t"
  "currentExercise (handleExerciseChange ex t) = (if isCounting t then currentExercise t else ex)"
  "stateMachineRef (handleExerciseChange ex t) =
     (if isCounting t then stateMachineRef t
      else if stateMachines t ex = None then None else Some ex)"
  "repCount_shown (handleExerciseChange ex t) = (if isCounting t then repCount_shown t else 0)"
  "spoken (handleExerciseChange ex t) =
     (if isCounting t \<and> ttsEnabled t
      then spoken t @ [''Please stop counting before changing exercise.''] else spoken t)"
  by (simp_all add: handleExerciseChange_def speakFeedback_def split: option.splits)

text \<open>
  The button's \<open>handleStopCounting\<close>, called while counting, adds the displayed count to
  what the log holds for the current exercise (to the existing entry, or as a new entry),
  leaves the other exercises' entries alone and disables counting.
\<close>

lemma handleStopCounting_persists:
  assumes c: "isCounting t" and r: "handleStopCounting t = Inr t'"
  shows "\<not> isCounting t' \<and>
      logged (currentExercise t) (workoutLog t') =
        logged (currentExercise t) (workoutLog t) + repCount_shown t \<and>
      (\<forall>k. k \<noteq> currentExercise t \<longrightarrow> logged k (workoutLog t') = logged k (workoutLog t))"
proof (cases "repCount_shown t > 0")
  case False
  with c r show ?thesis
    by (auto simp: handleStopCounting_def speakFeedback_fields)
next
  case True
  show ?thesis
  proof (cases "find (\<lambda>entry. exercise entry = currentExercise t) (workoutLog t)")
    case None
    with c r True find_None_logged [OF None] show ?thesis
      by (auto simp: handleStopCounting_def speakFeedback_fields logged_def
            split: option.splits)
  next
    case (Some e)
    then have "find (\<lambda>entry. exercise entry = currentExercise t) (workoutLog t) \<noteq> None"
      by simp
    from logged_add_reps_same [OF this] c r True Some show ?thesis
      by (auto simp: handleStopCounting_def speakFeedback_fields logged_add_reps_other)
  qed
qed

text \<open>
  The voice handler closes over the \<open>repCount\<close> of the render of its installation: after
  one counted squat the command to end the workout sends an empty log, where the button
  sends the squat.
\<close>

lemma voice_end_workout_sends_stale_count:
  "case session (WorkoutTracker False (Some ''u1'')) (squat_rep @ [VoiceCommand ''Jarvis end workout'']) of
     Inl err \<Rightarrow> False
   | Inr t \<Rightarrow> repCount_shown t = 1 \<and> requests t = [[]]"
  "case session (WorkoutTracker False (Some ''u1'')) (squat_rep @ [EndWorkout]) of
     Inl err \<Rightarrow> False
   | Inr t \<Rightarrow> requests t = [[\<lparr>exercise = ''squat'', reps = 1, entry_name = ''Squats''\<rparr>]]"
  by (simp_all add: squat_rep_def session_defs)

text \<open>
  C7. The switch does not persist the outgoing repetitions where the claim says it does. In
  the first session one squat is counted, the counting is stopped by the voice command
  (which pauses with the same message as the button but logs nothing) and the exercise is
  switched to push-ups: counting is off, the push-up machine is the active one, the squat
  machine holds its 1 repetition, and the log is empty. In the second session the counting
  is stopped with the button: there the squat is in the log before the switch.
\<close>

theorem voice_stop_then_switch_loses_rep:
  "(case session (WorkoutTracker False (Some ''u1''))
          (squat_rep @ [VoiceCommand ''Jarvis stop counting'', ExerciseChange ''pushup'']) of
      Inl err \<Rightarrow> False
    | Inr t \<Rightarrow>
        \<not> isCounting t \<and> currentExercise t = ''pushup'' \<and>
        stateMachineRef t = Some ''pushup'' \<and> repCount_shown t = 0 \<and>
        map_option repCount_of (stateMachines t ''squat'') = Some 1 \<and>
        workoutLog t = []) \<and>
   (case session (WorkoutTracker False (Some ''u1''))
          (squat_rep @ [StopCounting, ExerciseChange ''pushup'']) of
      Inl err \<Rightarrow> False
    | Inr t \<Rightarrow>
        \<not> isCounting t \<and> currentExercise t = ''pushup'' \<and>
        workoutLog t = [\<lparr>exercise = ''squat'', reps = 1, entry_name = ''Squats''\<rparr>])"
  by (simp add: squat_rep_def session_defs)

end
